theory Spec2Isabelle
  imports Complex_Main
begin

section \<open>JavaScript numbers\<close>

text \<open>
  A JavaScript number is an IEEE double.  It is modelled as NaN, the two infinities, or a
  finite value.  The arithmetic below has the sign, infinity and NaN rules of the language
  and its overflow: a finite result whose magnitude reaches \<open>2^1024 - 2^970\<close>, half a
  unit in the last place above the largest double, becomes an infinity (\<open>fin\<close>).
  Below that bound a result is kept as the exact real: the model has no rounding to 53
  bits, no underflow and no negative zero (a zero divisor divides like +0).  What is
  proved for every number therefore concerns signs, ranges, infinities and NaN, and
  values are computed only where the doubles are exact.
\<close>

datatype jsnum = NaN | PInf | NInf | Fin real

definition overflow_threshold :: real where
  "overflow_threshold = 2 ^ 1024 - 2 ^ 970"

text \<open>The largest double, \<open>Number.MAX_VALUE\<close>: every finite double is at most this in magnitude.\<close>

definition max_double :: real where
  "max_double = 2 ^ 1024 - 2 ^ 971"

definition fin :: "real \<Rightarrow> jsnum" where
  "fin r =
     (if overflow_threshold \<le> r then PInf
      else if r \<le> - overflow_threshold then NInf
      else Fin r)"

fun is_fin :: "jsnum \<Rightarrow> bool" where
  "is_fin (Fin x) = True"
| "is_fin _ = False"

text \<open>Truncation toward zero, as the remainder operator and \<open>ToIntegerOrInfinity\<close> use it.\<close>

definition js_trunc :: "real \<Rightarrow> int" where
  "js_trunc x = (if 0 \<le> x then \<lfloor>x\<rfloor> else - \<lfloor>- x\<rfloor>)"

instantiation jsnum :: "{plus,minus,uminus,times,inverse,modulo,abs,ord}"
begin

fun uminus_jsnum :: "jsnum \<Rightarrow> jsnum" where
  "uminus_jsnum NaN = NaN"
| "uminus_jsnum PInf = NInf"
| "uminus_jsnum NInf = PInf"
| "uminus_jsnum (Fin x) = Fin (- x)"

fun plus_jsnum :: "jsnum \<Rightarrow> jsnum \<Rightarrow> jsnum" where
  "plus_jsnum (Fin x) (Fin y) = fin (x + y)"
| "plus_jsnum NaN _ = NaN"
| "plus_jsnum _ NaN = NaN"
| "plus_jsnum PInf NInf = NaN"
| "plus_jsnum NInf PInf = NaN"
| "plus_jsnum PInf _ = PInf"
| "plus_jsnum _ PInf = PInf"
| "plus_jsnum NInf _ = NInf"
| "plus_jsnum _ NInf = NInf"

definition minus_jsnum :: "jsnum \<Rightarrow> jsnum \<Rightarrow> jsnum" where
  "minus_jsnum a b = a + (- b)"

fun times_jsnum :: "jsnum \<Rightarrow> jsnum \<Rightarrow> jsnum" where
  "times_jsnum (Fin x) (Fin y) = fin (x * y)"
| "times_jsnum NaN _ = NaN"
| "times_jsnum _ NaN = NaN"
| "times_jsnum PInf (Fin y) = (if y = 0 then NaN else if 0 < y then PInf else NInf)"
| "times_jsnum NInf (Fin y) = (if y = 0 then NaN else if 0 < y then NInf else PInf)"
| "times_jsnum (Fin x) PInf = (if x = 0 then NaN else if 0 < x then PInf else NInf)"
| "times_jsnum (Fin x) NInf = (if x = 0 then NaN else if 0 < x then NInf else PInf)"
| "times_jsnum PInf PInf = PInf"
| "times_jsnum NInf NInf = PInf"
| "times_jsnum PInf NInf = NInf"
| "times_jsnum NInf PInf = NInf"

fun divide_jsnum :: "jsnum \<Rightarrow> jsnum \<Rightarrow> jsnum" where
  "divide_jsnum (Fin x) (Fin y) =
     (if y \<noteq> 0 then fin (x / y)
      else if x = 0 then NaN else if 0 < x then PInf else NInf)"
| "divide_jsnum NaN _ = NaN"
| "divide_jsnum _ NaN = NaN"
| "divide_jsnum (Fin x) _ = Fin 0"
| "divide_jsnum PInf (Fin y) = (if 0 \<le> y then PInf else NInf)"
| "divide_jsnum NInf (Fin y) = (if 0 \<le> y then NInf else PInf)"
| "divide_jsnum _ _ = NaN"

definition inverse_jsnum :: "jsnum \<Rightarrow> jsnum" where
  "inverse_jsnum a = divide (Fin 1) a"

text \<open>
  The operator \<open>%\<close>: the remainder has the sign of the dividend, is exact on doubles and
  is no larger than the dividend.
\<close>

fun modulo_jsnum :: "jsnum \<Rightarrow> jsnum \<Rightarrow> jsnum" where
  "modulo_jsnum (Fin x) (Fin y) =
     (if y = 0 then NaN else Fin (x - y * of_int (js_trunc (x / y))))"
| "modulo_jsnum (Fin x) PInf = Fin x"
| "modulo_jsnum (Fin x) NInf = Fin x"
| "modulo_jsnum _ _ = NaN"

fun abs_jsnum :: "jsnum \<Rightarrow> jsnum" where
  "abs_jsnum NaN = NaN"
| "abs_jsnum PInf = PInf"
| "abs_jsnum NInf = PInf"
| "abs_jsnum (Fin x) = Fin \<bar>x\<bar>"

text \<open>The relational operators: every comparison with NaN is false.\<close>

fun less_jsnum :: "jsnum \<Rightarrow> jsnum \<Rightarrow> bool" where
  "less_jsnum (Fin x) (Fin y) = (x < y)"
| "less_jsnum NaN _ = False"
| "less_jsnum _ NaN = False"
| "less_jsnum NInf b = (b \<noteq> NInf)"
| "less_jsnum a PInf = (a \<noteq> PInf)"
| "less_jsnum _ _ = False"

fun less_eq_jsnum :: "jsnum \<Rightarrow> jsnum \<Rightarrow> bool" where
  "less_eq_jsnum (Fin x) (Fin y) = (x \<le> y)"
| "less_eq_jsnum NaN _ = False"
| "less_eq_jsnum _ NaN = False"
| "less_eq_jsnum NInf _ = True"
| "less_eq_jsnum _ PInf = True"
| "less_eq_jsnum _ _ = False"

instance ..

end

text \<open>\<open>==\<close> on two numbers: NaN is equal to nothing, itself included.\<close>

definition js_eq :: "jsnum \<Rightarrow> jsnum \<Rightarrow> bool" where
  "js_eq a b = (a \<noteq> NaN \<and> b \<noteq> NaN \<and> a = b)"

text \<open>\<open>Math.round\<close>: the nearest integer, a tie going up.\<close>

fun Math_round :: "jsnum \<Rightarrow> jsnum" where
  "Math_round (Fin x) = fin (of_int \<lfloor>x + 1 / 2\<rfloor>)"
| "Math_round a = a"

fun Math_floor :: "jsnum \<Rightarrow> jsnum" where
  "Math_floor (Fin x) = fin (of_int \<lfloor>x\<rfloor>)"
| "Math_floor a = a"

section \<open>Dms: the wrap functions\<close>

definition wrap90 :: "jsnum \<Rightarrow> jsnum" where
  "wrap90 degrees =
     (if Fin (- 90) \<le> degrees \<and> degrees \<le> Fin 90 then degrees
      else let x = degrees; a = Fin 90; p = Fin 360
           in Fin 4 * a / p * \<bar>(((x - p / Fin 4) mod p) + p) mod p - p / Fin 2\<bar> - a)"

definition wrap180 :: "jsnum \<Rightarrow> jsnum" where
  "wrap180 degrees =
     (if Fin (- 180) \<le> degrees \<and> degrees \<le> Fin 180 then degrees
      else let x = degrees; a = Fin 180; p = Fin 360
           in (((Fin 2 * a * x / p - p / Fin 2) mod p) + p) mod p - a)"

definition wrap360 :: "jsnum \<Rightarrow> jsnum" where
  "wrap360 degrees =
     (if Fin 0 \<le> degrees \<and> degrees < Fin 360 then degrees
      else let x = degrees; a = Fin 180; p = Fin 360
           in (((Fin 2 * a * x / p) mod p) + p) mod p)"

section \<open>JavaScript strings\<close>

text \<open>
  A string is the list of its UTF-16 code units; \<open>asc\<close> writes an ASCII literal.
\<close>

type_synonym jsstring = "nat list"

abbreviation asc :: "string \<Rightarrow> jsstring" where
  "asc s \<equiv> map of_char s"

text \<open>The code units that \<open>trim\<close> and the numeric conversions skip: WhiteSpace and LineTerminator.\<close>

definition is_space :: "nat \<Rightarrow> bool" where
  "is_space c =
     (c \<in> {9, 10, 11, 12, 13, 32, 160, 5760, 8232, 8233, 8239, 8287, 12288, 65279}
      \<or> (8192 \<le> c \<and> c \<le> 8202))"

definition js_trim :: "jsstring \<Rightarrow> jsstring" where
  "js_trim s = rev (dropWhile is_space (rev (dropWhile is_space s)))"

definition is_digit :: "nat \<Rightarrow> bool" where
  "is_digit c = (48 \<le> c \<and> c \<le> 57)"

definition digits_value :: "nat \<Rightarrow> jsstring \<Rightarrow> nat" where
  "digits_value b ds = foldl (\<lambda>n d. b * n + d) 0 ds"

subsection \<open>String to number\<close>

text \<open>
  The grammar of \<open>StringNumericLiteral\<close>.  \<open>read_exponent\<close> reads an ExponentPart
  (e or E, an optional sign, one digit at least) when there is one; \<open>read_unsigned\<close>
  and \<open>read_signed\<close> read the longest prefix that is a decimal literal and return its
  value with the rest of the string.
\<close>

definition read_exponent :: "jsstring \<Rightarrow> int \<times> jsstring" where
  "read_exponent s =
     (case s of
        [] \<Rightarrow> (0, s)
      | c # r \<Rightarrow>
          if c = 101 \<or> c = 69 then
            (let neg = (take 1 r = [45]);
                 r' = (if take 1 r = [45] \<or> take 1 r = [43] then drop 1 r else r);
                 ds = takeWhile is_digit r';
                 e = int (digits_value 10 (map (\<lambda>d. d - 48) ds))
             in if ds = [] then (0, s)
                else (if neg then - e else e, dropWhile is_digit r'))
          else (0, s))"

definition scale10 :: "real \<Rightarrow> int \<Rightarrow> real" where
  "scale10 x e = (if 0 \<le> e then x * 10 ^ nat e else x / 10 ^ nat (- e))"

definition read_unsigned :: "jsstring \<Rightarrow> (jsnum \<times> jsstring) option" where
  "read_unsigned s =
     (if take 8 s = asc ''Infinity'' then Some (PInf, drop 8 s)
      else
        let ip = takeWhile is_digit s;
            r1 = dropWhile is_digit s;
            dot = (take 1 r1 = [46]);
            fp = (if dot then takeWhile is_digit (drop 1 r1) else []);
            r2 = (if dot then dropWhile is_digit (drop 1 r1) else r1)
        in if ip = [] \<and> fp = [] then None
           else
             let (e, r3) = read_exponent r2;
                 m = real (digits_value 10 (map (\<lambda>d. d - 48) ip))
                     + real (digits_value 10 (map (\<lambda>d. d - 48) fp)) / 10 ^ length fp
             in Some (fin (scale10 m e), r3))"

definition read_signed :: "jsstring \<Rightarrow> (jsnum \<times> jsstring) option" where
  "read_signed s =
     (if take 1 s = [45] then map_option (\<lambda>(v, t). (- v, t)) (read_unsigned (drop 1 s))
      else if take 1 s = [43] then read_unsigned (drop 1 s)
      else read_unsigned s)"

text \<open>Hexadecimal, octal and binary integer literals (\<open>0x\<close>, \<open>0o\<close>, \<open>0b\<close>).\<close>

definition hex_value :: "nat \<Rightarrow> nat" where
  "hex_value c =
     (if 48 \<le> c \<and> c \<le> 57 then c - 48
      else if 97 \<le> c \<and> c \<le> 102 then c - 87
      else if 65 \<le> c \<and> c \<le> 70 then c - 55
      else 16)"

definition radix_literal :: "nat \<Rightarrow> jsstring \<Rightarrow> jsnum" where
  "radix_literal b ds =
     (if ds \<noteq> [] \<and> list_all (\<lambda>c. hex_value c < b) ds
      then fin (real (digits_value b (map hex_value ds)))
      else NaN)"

text \<open>\<open>Number(s)\<close> for a string \<open>s\<close>: the whole trimmed string must be a literal.\<close>

definition StringToNumber :: "jsstring \<Rightarrow> jsnum" where
  "StringToNumber str =
     (let s = js_trim str
      in if s = [] then Fin 0
         else if take 2 s = asc ''0x'' \<or> take 2 s = asc ''0X'' then radix_literal 16 (drop 2 s)
         else if take 2 s = asc ''0o'' \<or> take 2 s = asc ''0O'' then radix_literal 8 (drop 2 s)
         else if take 2 s = asc ''0b'' \<or> take 2 s = asc ''0B'' then radix_literal 2 (drop 2 s)
         else (case read_signed s of
                 None \<Rightarrow> NaN
               | Some (v, r) \<Rightarrow> if r = [] then v else NaN))"

text \<open>\<open>parseFloat(s)\<close> for a string \<open>s\<close>: the longest decimal literal the string starts with.\<close>

definition parseFloat_string :: "jsstring \<Rightarrow> jsnum" where
  "parseFloat_string str =
     (case read_signed (dropWhile is_space str) of
        None \<Rightarrow> NaN
      | Some (v, r) \<Rightarrow> v)"

subsection \<open>Number to string\<close>

fun dec :: "nat \<Rightarrow> jsstring" where
  "dec n = (if n < 10 then [48 + n] else dec (n div 10) @ [48 + n mod 10])"

declare dec.simps [simp del]

text \<open>
  \<open>String(x)\<close> for a number: an integer below \<open>10^21\<close> in magnitude is written in decimal.
  For every other finite value the language prints the shortest digits that read back as
  the same double, which the binary representation decides: that printer is the
  parameter \<open>repr\<close>.
\<close>

definition NumberToString :: "(real \<Rightarrow> jsstring) \<Rightarrow> jsnum \<Rightarrow> jsstring" where
  "NumberToString repr x =
     (case x of
        NaN \<Rightarrow> asc ''NaN''
      | PInf \<Rightarrow> asc ''Infinity''
      | NInf \<Rightarrow> asc ''-Infinity''
      | Fin r \<Rightarrow>
          if r = of_int \<lfloor>r\<rfloor> \<and> \<bar>r\<bar> < 10 ^ 21
          then (if r < 0 then asc ''-'' else []) @ dec (nat \<lfloor>\<bar>r\<bar>\<rfloor>)
          else repr r)"

section \<open>JavaScript values, conversions and errors\<close>

text \<open>The primitive values; objects other than the points below are left out.\<close>

datatype jsval = JUndefined | JNull | JBool bool | JNum jsnum | JStr jsstring

datatype js_error = TypeError | RangeError

fun ToNumber :: "jsval \<Rightarrow> jsnum" where
  "ToNumber JUndefined = NaN"
| "ToNumber JNull = Fin 0"
| "ToNumber (JBool b) = (if b then Fin 1 else Fin 0)"
| "ToNumber (JNum x) = x"
| "ToNumber (JStr s) = StringToNumber s"

fun ToString :: "(real \<Rightarrow> jsstring) \<Rightarrow> jsval \<Rightarrow> jsstring" where
  "ToString repr JUndefined = asc ''undefined''"
| "ToString repr JNull = asc ''null''"
| "ToString repr (JBool b) = (if b then asc ''true'' else asc ''false'')"
| "ToString repr (JNum x) = NumberToString repr x"
| "ToString repr (JStr s) = s"

definition isNaN :: "jsval \<Rightarrow> bool" where
  "isNaN v = (ToNumber v = NaN)"

definition isFinite :: "jsval \<Rightarrow> bool" where
  "isFinite v = is_fin (ToNumber v)"

definition parseFloat :: "(real \<Rightarrow> jsstring) \<Rightarrow> jsval \<Rightarrow> jsnum" where
  "parseFloat repr v = parseFloat_string (ToString repr v)"

text \<open>\<open>v == n\<close> and \<open>v < n\<close> for a number \<open>n\<close>.\<close>

definition loose_eq_num :: "jsval \<Rightarrow> jsnum \<Rightarrow> bool" where
  "loose_eq_num v n =
     (case v of JUndefined \<Rightarrow> False | JNull \<Rightarrow> False | _ \<Rightarrow> js_eq (ToNumber v) n)"

definition lt_num :: "jsval \<Rightarrow> jsnum \<Rightarrow> bool" where
  "lt_num v n = (ToNumber v < n)"

text \<open>Exceptions are values: a function that can throw returns \<open>js_error + 'a\<close>.\<close>

definition bind_err :: "'e + 'a \<Rightarrow> ('a \<Rightarrow> 'e + 'b) \<Rightarrow> 'e + 'b" where
  "bind_err r f = (case r of Inl e \<Rightarrow> Inl e | Inr a \<Rightarrow> f a)"

subsection \<open>String and number methods the code calls\<close>

text \<open>\<open>s.slice(-n)\<close>: the last \<open>n\<close> code units.\<close>

definition slice_last :: "nat \<Rightarrow> jsstring \<Rightarrow> jsstring" where
  "slice_last n s = drop (length s - n) s"

text \<open>\<open>s.replace(pat, rep)\<close> with a string pattern: the first occurrence only.\<close>

fun replace_first :: "jsstring \<Rightarrow> jsstring \<Rightarrow> jsstring \<Rightarrow> jsstring" where
  "replace_first pat rep [] = (if pat = [] then rep else [])"
| "replace_first pat rep (c # cs) =
     (if take (length pat) (c # cs) = pat then rep @ drop (length pat) (c # cs)
      else c # replace_first pat rep cs)"

text \<open>Whether the last code unit of a string is one of a set (a character class before \<open>$\<close>).\<close>

definition last_in :: "nat set \<Rightarrow> jsstring \<Rightarrow> bool" where
  "last_in cs s = (case rev s of [] \<Rightarrow> False | c # r \<Rightarrow> c \<in> cs)"

text \<open>
  \<open>x.toFixed(fractionDigits)\<close>.  \<open>to_fixed_digits\<close> writes the integer nearest to
  \<open>|x| * 10^f\<close> (a tie going up) with \<open>f\<close> digits after the point.
\<close>

fun ToIntegerOrInfinity :: "jsnum \<Rightarrow> jsnum" where
  "ToIntegerOrInfinity NaN = Fin 0"
| "ToIntegerOrInfinity (Fin r) = Fin (of_int (js_trunc r))"
| "ToIntegerOrInfinity a = a"

definition to_fixed_digits :: "real \<Rightarrow> nat \<Rightarrow> jsstring" where
  "to_fixed_digits x f =
     (let n = nat \<lfloor>\<bar>x\<bar> * 10 ^ f + 1 / 2\<rfloor>;
          m = dec n;
          m = (if f = 0 then m
               else let m' = (if length m \<le> f then replicate (f + 1 - length m) 48 @ m else m);
                        k = length m'
                    in take (k - f) m' @ [46] @ drop (k - f) m')
      in (if x < 0 then [45] else []) @ m)"

definition toFixed :: "(real \<Rightarrow> jsstring) \<Rightarrow> jsnum \<Rightarrow> jsval \<Rightarrow> js_error + jsstring" where
  "toFixed repr x fractionDigits =
     (case ToIntegerOrInfinity (ToNumber fractionDigits) of
        Fin f \<Rightarrow>
          if f < 0 \<or> 100 < f then Inl RangeError
          else (case x of
                  Fin r \<Rightarrow>
                    if \<bar>r\<bar> < 10 ^ 21 then Inr (to_fixed_digits r (nat \<lfloor>f\<rfloor>))
                    else Inr (NumberToString repr x)
                | _ \<Rightarrow> Inr (NumberToString repr x))
      | _ \<Rightarrow> Inl RangeError)"

text \<open>\<open>2 ** e\<close>.\<close>

fun two_pow :: "jsnum \<Rightarrow> jsnum" where
  "two_pow (Fin e) = fin (2 powr e)"
| "two_pow PInf = PInf"
| "two_pow NInf = Fin 0"
| "two_pow NaN = NaN"

text \<open>\<open>a[i]\<close> for an array and a number: \<open>undefined\<close> (None) unless \<open>i\<close> is an index of the array.\<close>

definition array_get :: "'a list \<Rightarrow> jsnum \<Rightarrow> 'a option" where
  "array_get xs i =
     (case i of
        Fin r \<Rightarrow>
          if 0 \<le> r \<and> r = of_int \<lfloor>r\<rfloor> \<and> nat \<lfloor>r\<rfloor> < length xs then Some (xs ! nat \<lfloor>r\<rfloor>)
          else None
      | _ \<Rightarrow> None)"

section \<open>Dms: parsing\<close>

text \<open>\<open>s.split(/[^0-9.,]+/)\<close>: the pieces between the runs of other characters.\<close>

definition is_numeric_char :: "nat \<Rightarrow> bool" where
  "is_numeric_char c = (is_digit c \<or> c = 46 \<or> c = 44)"

function split_nonnumeric :: "jsstring \<Rightarrow> jsstring list" where
  "split_nonnumeric s =
     (let piece = takeWhile is_numeric_char s;
          rest = dropWhile is_numeric_char s
      in if rest = [] then [piece]
         else piece # split_nonnumeric (dropWhile (\<lambda>c. \<not> is_numeric_char c) rest))"
  by pat_completeness auto
termination
proof (relation "measure length")
  show "wf (measure length)" by simp
next
  fix s :: jsstring and piece rest
  assume r: "rest = dropWhile is_numeric_char s" and ne: "rest \<noteq> []"
  from ne obtain c cs where c: "rest = c # cs" by (cases rest) auto
  with r have "\<not> is_numeric_char c" by (metis hd_dropWhile list.sel(1) ne)
  then have "length (dropWhile (\<lambda>c. \<not> is_numeric_char c) rest) \<le> length cs"
    using c by (simp add: length_dropWhile_le)
  moreover have "length rest \<le> length s" using r by (simp add: length_dropWhile_le)
  ultimately show "(dropWhile (\<lambda>c. \<not> is_numeric_char c) rest, s) \<in> measure length"
    using c by simp
qed

declare split_nonnumeric.simps [simp del]

text \<open>\<open>replace(/^-/, '')\<close> and \<open>replace(/[NSEW]$/i, '')\<close>.\<close>

definition strip_minus :: "jsstring \<Rightarrow> jsstring" where
  "strip_minus s = (if take 1 s = [45] then drop 1 s else s)"

definition strip_compass :: "jsstring \<Rightarrow> jsstring" where
  "strip_compass s = (if last_in {78, 83, 69, 87, 110, 115, 101, 119} s then butlast s else s)"

text \<open>
  \<open>Dms.parse\<close>.  The last test calls \<open>dms.trim()\<close> on the argument itself, which is a
  TypeError when the argument is not a string.
\<close>

definition Dms_parse :: "(real \<Rightarrow> jsstring) \<Rightarrow> jsval \<Rightarrow> js_error + jsnum" where
  "Dms_parse repr dms =
     (if parseFloat repr dms \<noteq> NaN \<and> isFinite dms then Inr (ToNumber dms)
      else
        let parts = split_nonnumeric (strip_compass (strip_minus (js_trim (ToString repr dms))));
            dmsParts = (if last parts = [] then butlast parts else parts)
        in if dmsParts = [] \<or> dmsParts = [[]] then Inr NaN
           else
             (case (case dmsParts of
                      [d] \<Rightarrow> Some (JStr d)
                    | [d, m] \<Rightarrow>
                        Some (JNum (StringToNumber d / Fin 1 + StringToNumber m / Fin 60))
                    | [d, m, s] \<Rightarrow>
                        Some (JNum (StringToNumber d / Fin 1 + StringToNumber m / Fin 60
                                    + StringToNumber s / Fin 3600))
                    | _ \<Rightarrow> None) of
                None \<Rightarrow> Inr NaN
              | Some deg \<Rightarrow>
                  (case dms of
                     JStr str \<Rightarrow>
                       if take 1 (js_trim str) = [45] \<or> last_in {87, 83, 119, 115} (js_trim str)
                       then Inr (ToNumber (JNum (- ToNumber deg)))
                       else Inr (ToNumber deg)
                   | _ \<Rightarrow> Inl TypeError)))"

section \<open>Dms: formatting\<close>

text \<open>
  The separator \<open>Dms.separator\<close> is a setting of the whole program; the formatters take
  it as the argument \<open>separator\<close>.  The three cases of the second \<open>switch\<close> of
  \<open>toDms\<close> come first, each a definition.
\<close>

definition toDms_d :: "(real \<Rightarrow> jsstring) \<Rightarrow> jsnum \<Rightarrow> jsval \<Rightarrow> js_error + jsstring option" where
  "toDms_d repr deg dp =
     bind_err (toFixed repr deg dp) (\<lambda>d.
       let d = (if StringToNumber d < Fin 100 then asc ''0'' @ d else d);
           d = (if StringToNumber d < Fin 10 then asc ''0'' @ d else d)
       in Inr (Some (d @ [176])))"

definition toDms_dm ::
  "(real \<Rightarrow> jsstring) \<Rightarrow> jsstring \<Rightarrow> jsnum \<Rightarrow> jsval \<Rightarrow> js_error + jsstring option" where
  "toDms_dm repr separator deg dp =
     (let d = Math_floor deg
      in bind_err (toFixed repr ((deg * Fin 60) mod Fin 60) dp) (\<lambda>m.
         bind_err (if js_eq (StringToNumber m) (Fin 60)
                   then bind_err (toFixed repr (Fin 0) dp) (\<lambda>z. Inr (z, d + Fin 1))
                   else Inr (m, d)) (\<lambda>(m, d).
           let d = slice_last 3 (asc ''000'' @ NumberToString repr d);
               m = (if StringToNumber m < Fin 10 then asc ''0'' @ m else m)
           in Inr (Some (d @ [176] @ separator @ m @ [8242])))))"

definition toDms_dms ::
  "(real \<Rightarrow> jsstring) \<Rightarrow> jsstring \<Rightarrow> jsnum \<Rightarrow> jsval \<Rightarrow> js_error + jsstring option" where
  "toDms_dms repr separator deg dp =
     (let d = Math_floor deg;
          m = Math_floor ((deg * Fin 3600) / Fin 60) mod Fin 60
      in bind_err (toFixed repr (deg * Fin 3600 mod Fin 60) dp) (\<lambda>s.
         bind_err (if js_eq (StringToNumber s) (Fin 60)
                   then bind_err (toFixed repr (Fin 0) dp) (\<lambda>z. Inr (z, m + Fin 1))
                   else Inr (s, m)) (\<lambda>(s, m).
           let (m, d) = (if js_eq m (Fin 60) then (Fin 0, d + Fin 1) else (m, d));
               d = slice_last 3 (asc ''000'' @ NumberToString repr d);
               m = slice_last 2 (asc ''00'' @ NumberToString repr m);
               s = (if StringToNumber s < Fin 10 then asc ''0'' @ s else s)
           in Inr (Some (d @ [176] @ separator @ m @ [8242] @ separator @ s @ [8243])))))"

text \<open>
  \<open>Dms.toDms(deg, format='d', dp=undefined)\<close>; the result None is \<open>null\<close>.  The first
  \<open>switch\<close> runs only when \<open>dp\<close> is \<open>undefined\<close>; the second one sends every format it
  does not know to the case \<open>'d'\<close>.
\<close>

definition toDms ::
  "(real \<Rightarrow> jsstring) \<Rightarrow> jsstring \<Rightarrow> jsval \<Rightarrow> jsval \<Rightarrow> jsval \<Rightarrow> js_error + jsstring option" where
  "toDms repr separator deg format0 dp0 =
     (let format = (if format0 = JUndefined then JStr (asc ''d'') else format0)
      in if isNaN deg then Inr None
         else if (case deg of JStr s \<Rightarrow> js_trim s = [] | _ \<Rightarrow> False) then Inr None
         else if (case deg of JBool b \<Rightarrow> True | _ \<Rightarrow> False) then Inr None
         else if loose_eq_num deg PInf then Inr None
         else if deg = JNull \<or> deg = JUndefined then Inr None
         else
           let (format, dp) =
                 (if dp0 = JUndefined then
                    (if format = JStr (asc ''d'') \<or> format = JStr (asc ''deg'')
                       then (format, JNum (Fin 4))
                     else if format = JStr (asc ''dm'') \<or> format = JStr (asc ''deg+min'')
                       then (format, JNum (Fin 2))
                     else if format = JStr (asc ''dms'') \<or> format = JStr (asc ''deg+min+sec'')
                       then (format, JNum (Fin 0))
                     else (JStr (asc ''d''), JNum (Fin 4)))
                  else (format, dp0));
               deg = \<bar>ToNumber deg\<bar>
           in if format = JStr (asc ''dm'') \<or> format = JStr (asc ''deg+min'')
                then toDms_dm repr separator deg dp
              else if format = JStr (asc ''dms'') \<or> format = JStr (asc ''deg+min+sec'')
                then toDms_dms repr separator deg dp
              else toDms_d repr deg dp)"

text \<open>
  \<open>Dms.toLat\<close> and \<open>Dms.toBrng\<close>, on a number \<open>deg\<close> as they document their argument.
  The dash they return for \<open>null\<close> is U+2013.
\<close>

definition toLat ::
  "(real \<Rightarrow> jsstring) \<Rightarrow> jsstring \<Rightarrow> jsnum \<Rightarrow> jsval \<Rightarrow> jsval \<Rightarrow> js_error + jsstring" where
  "toLat repr separator deg format dp =
     bind_err (toDms repr separator (JNum (wrap90 deg)) format dp) (\<lambda>lat.
       case lat of
         None \<Rightarrow> Inr [8211]
       | Some lat \<Rightarrow> Inr (drop 1 lat @ separator @ (if deg < Fin 0 then asc ''S'' else asc ''N'')))"

definition toLon ::
  "(real \<Rightarrow> jsstring) \<Rightarrow> jsstring \<Rightarrow> jsnum \<Rightarrow> jsval \<Rightarrow> jsval \<Rightarrow> js_error + jsstring" where
  "toLon repr separator deg format dp =
     bind_err (toDms repr separator (JNum (wrap180 deg)) format dp) (\<lambda>lon.
       case lon of
         None \<Rightarrow> Inr [8211]
       | Some lon \<Rightarrow> Inr (lon @ separator @ (if deg < Fin 0 then asc ''W'' else asc ''E'')))"

definition toBrng ::
  "(real \<Rightarrow> jsstring) \<Rightarrow> jsstring \<Rightarrow> jsnum \<Rightarrow> jsval \<Rightarrow> jsval \<Rightarrow> js_error + jsstring" where
  "toBrng repr separator deg format dp =
     bind_err (toDms repr separator (JNum (wrap360 deg)) format dp) (\<lambda>brng.
       case brng of
         None \<Rightarrow> Inr [8211]
       | Some brng \<Rightarrow> Inr (replace_first (asc ''360'') (asc ''0'') brng))"

section \<open>Dms: compass points\<close>

definition cardinals :: "jsstring list" where
  "cardinals =
     [asc ''N'', asc ''NNE'', asc ''NE'', asc ''ENE'',
      asc ''E'', asc ''ESE'', asc ''SE'', asc ''SSE'',
      asc ''S'', asc ''SSW'', asc ''SW'', asc ''WSW'',
      asc ''W'', asc ''WNW'', asc ''NW'', asc ''NNW'']"

text \<open>
  \<open>Dms.compassPoint(bearing, precision=3)\<close> on a number \<open>bearing\<close>; the result None is
  \<open>undefined\<close>, what an array gives outside its indices.
\<close>

definition compassPoint :: "jsnum \<Rightarrow> jsval \<Rightarrow> js_error + jsstring option" where
  "compassPoint bearing precision0 =
     (let precision = (if precision0 = JUndefined then JNum (Fin 3) else precision0)
      in if ToNumber precision \<notin> {Fin 1, Fin 2, Fin 3} then Inl RangeError
         else
           let bearing = wrap360 bearing;
               n = Fin 4 * two_pow (ToNumber precision - Fin 1);
               cardinal = array_get cardinals (Math_round (bearing * n / Fin 360) mod n * Fin 16 / n)
           in Inr cardinal)"

section \<open>Math\<close>

text \<open>
  The language leaves the values of \<open>Math.sin\<close>, \<open>cos\<close>, \<open>tan\<close>, \<open>asin\<close>, \<open>acos\<close>,
  \<open>atan2\<close> and \<open>sqrt\<close> to the implementation, so the geodesy code below takes them
  from a record \<open>M\<close>.  \<open>math_standard\<close> collects what holds of every implementation and
  the theorems need: the results on NaN, the infinities and zero, and the bounds of the
  results.  \<open>exact_math\<close>, built from the real functions, is one such record: an
  idealised one, without rounding (on doubles \<open>Math.sin(Math.PI)\<close> is not zero), used to
  show that the assumptions can be met and to evaluate examples; the general theorems
  hold for every \<open>M\<close>, or for every \<open>M\<close> with \<open>math_standard M\<close>.
\<close>

record js_math =
  m_sin :: "jsnum \<Rightarrow> jsnum"
  m_cos :: "jsnum \<Rightarrow> jsnum"
  m_tan :: "jsnum \<Rightarrow> jsnum"
  m_asin :: "jsnum \<Rightarrow> jsnum"
  m_acos :: "jsnum \<Rightarrow> jsnum"
  m_sqrt :: "jsnum \<Rightarrow> jsnum"
  m_atan2 :: "jsnum \<Rightarrow> jsnum \<Rightarrow> jsnum"




text \<open>
  The exact functions.  The real tangent has no value where the cosine is zero; no double
  is such an argument, and \<open>Math_tan\<close> gives NaN there.
\<close>

fun Math_sin :: "jsnum \<Rightarrow> jsnum" where
  "Math_sin (Fin x) = Fin (sin x)"
| "Math_sin _ = NaN"

fun Math_cos :: "jsnum \<Rightarrow> jsnum" where
  "Math_cos (Fin x) = Fin (cos x)"
| "Math_cos _ = NaN"

fun Math_tan :: "jsnum \<Rightarrow> jsnum" where
  "Math_tan (Fin x) = (if cos x = 0 then NaN else fin (tan x))"
| "Math_tan _ = NaN"

fun Math_asin :: "jsnum \<Rightarrow> jsnum" where
  "Math_asin (Fin x) = (if - 1 \<le> x \<and> x \<le> 1 then Fin (arcsin x) else NaN)"
| "Math_asin _ = NaN"

fun Math_acos :: "jsnum \<Rightarrow> jsnum" where
  "Math_acos (Fin x) = (if - 1 \<le> x \<and> x \<le> 1 then Fin (arccos x) else NaN)"
| "Math_acos _ = NaN"

fun Math_sqrt :: "jsnum \<Rightarrow> jsnum" where
  "Math_sqrt (Fin x) = (if x < 0 then NaN else Fin (sqrt x))"
| "Math_sqrt PInf = PInf"
| "Math_sqrt _ = NaN"

fun Math_atan2 :: "jsnum \<Rightarrow> jsnum \<Rightarrow> jsnum" where
  "Math_atan2 (Fin y) (Fin x) =
     (if 0 < x then Fin (arctan (y / x))
      else if x < 0 then (if 0 \<le> y then Fin (arctan (y / x) + pi) else Fin (arctan (y / x) - pi))
      else if 0 < y then Fin (pi / 2)
      else if y < 0 then Fin (- pi / 2)
      else Fin 0)"
| "Math_atan2 NaN _ = NaN"
| "Math_atan2 _ NaN = NaN"
| "Math_atan2 (Fin y) PInf = Fin 0"
| "Math_atan2 (Fin y) NInf = (if 0 \<le> y then Fin pi else Fin (- pi))"
| "Math_atan2 PInf (Fin x) = Fin (pi / 2)"
| "Math_atan2 NInf (Fin x) = Fin (- pi / 2)"
| "Math_atan2 PInf PInf = Fin (pi / 4)"
| "Math_atan2 PInf NInf = Fin (3 * pi / 4)"
| "Math_atan2 NInf PInf = Fin (- pi / 4)"
| "Math_atan2 NInf NInf = Fin (- 3 * pi / 4)"

definition exact_math :: js_math where
  "exact_math =
     \<lparr>m_sin = Math_sin, m_cos = Math_cos, m_tan = Math_tan, m_asin = Math_asin,
      m_acos = Math_acos, m_sqrt = Math_sqrt, m_atan2 = Math_atan2\<rparr>"



definition Math_PI :: jsnum where
  "Math_PI = Fin pi"

definition Number_EPSILON :: jsnum where
  "Number_EPSILON = Fin (1 / 2 ^ 52)"

text \<open>
  Modelled from the spec: the constant \<open>\<pi>\<close>, which \<open>intersection\<close> and \<open>areaOf\<close> use and
  the file does not declare.  The spec's formulas (\<open>|S| - 2\<pi>\<close> steradians) read it as the
  circle constant, so it is \<open>Math.PI\<close>.
\<close>

definition js_pi :: jsnum where
  "js_pi = Math_PI"

definition toRadians :: "jsnum \<Rightarrow> jsnum" where
  "toRadians this = this * Math_PI / Fin 180"

definition toDegrees :: "jsnum \<Rightarrow> jsnum" where
  "toDegrees this = this * Fin 180 / Math_PI"

section \<open>LatLonSpherical\<close>

text \<open>A point holds the fields \<open>_lat\<close> and \<open>_lon\<close>, read through the getters \<open>lat\<close> and \<open>lon\<close>.\<close>

record LatLonSpherical =
  lat :: jsnum
  lon :: jsnum


text \<open>The constructor \<open>new LatLonSpherical(lat, lon)\<close>.\<close>

definition new_LatLonSpherical :: "jsval \<Rightarrow> jsval \<Rightarrow> js_error + LatLonSpherical" where
  "new_LatLonSpherical la lo =
     (if isNaN la then Inl TypeError
      else if isNaN lo then Inl TypeError
      else Inr \<lparr>lat = wrap90 (ToNumber la), lon = wrap180 (ToNumber lo)\<rparr>)"

text \<open>
  The setters \<open>set lat\<close> and \<open>set lon\<close> (\<open>latitude\<close>, \<open>lng\<close> and \<open>longitude\<close> have the
  same bodies).  A setter assigns the field and then tests it, so the point it leaves
  behind is returned with the outcome; an exception of \<open>Dms.parse\<close> comes before the
  assignment.
\<close>

definition set_lat ::
  "(real \<Rightarrow> jsstring) \<Rightarrow> jsval \<Rightarrow> LatLonSpherical \<Rightarrow> (js_error + unit) \<times> LatLonSpherical" where
  "set_lat repr la this =
     (case (if isNaN la then bind_err (Dms_parse repr la) (\<lambda>d. Inr (wrap90 d))
            else Inr (wrap90 (ToNumber la))) of
        Inl e \<Rightarrow> (Inl e, this)
      | Inr x \<Rightarrow> (if x = NaN then Inl TypeError else Inr (), this\<lparr>lat := x\<rparr>))"

definition set_lon ::
  "(real \<Rightarrow> jsstring) \<Rightarrow> jsval \<Rightarrow> LatLonSpherical \<Rightarrow> (js_error + unit) \<times> LatLonSpherical" where
  "set_lon repr lo this =
     (case (if isNaN lo then bind_err (Dms_parse repr lo) (\<lambda>d. Inr (wrap180 d))
            else Inr (wrap180 (ToNumber lo))) of
        Inl e \<Rightarrow> (Inl e, this)
      | Inr x \<Rightarrow> (if x = NaN then Inl TypeError else Inr (), this\<lparr>lon := x\<rparr>))"

text \<open>
  The methods below take points; the literal forms that \<open>LatLonSpherical.parse\<close> would
  convert first are left out.
\<close>

definition equals :: "LatLonSpherical \<Rightarrow> LatLonSpherical \<Rightarrow> bool" where
  "equals this point =
     (if Number_EPSILON < \<bar>lat this - lat point\<bar> then False
      else if Number_EPSILON < \<bar>lon this - lon point\<bar> then False
      else True)"

definition initialBearingTo :: "js_math \<Rightarrow> LatLonSpherical \<Rightarrow> LatLonSpherical \<Rightarrow> jsnum" where
  "initialBearingTo M this point =
     (if equals this point then NaN
      else
        let phi1 = toRadians (lat this);
            phi2 = toRadians (lat point);
            dlambda = toRadians (lon point - lon this);
            x = m_cos M phi1 * m_sin M phi2 - m_sin M phi1 * m_cos M phi2 * m_cos M dlambda;
            y = m_sin M dlambda * m_cos M phi2;
            theta = m_atan2 M y x;
            bearing = toDegrees theta
        in wrap360 bearing)"

definition finalBearingTo :: "js_math \<Rightarrow> LatLonSpherical \<Rightarrow> LatLonSpherical \<Rightarrow> jsnum" where
  "finalBearingTo M this point =
     (let bearing = initialBearingTo M point this + Fin 180
      in wrap360 bearing)"

subsection \<open>intersection\<close>





subsection \<open>areaOf\<close>

text \<open>The loop over the edges, from the accumulator \<open>S\<close>.\<close>

fun excess_loop :: "js_math \<Rightarrow> LatLonSpherical list \<Rightarrow> jsnum \<Rightarrow> jsnum" where
  "excess_loop M (p # q # ps) S =
     (let phi1 = toRadians (lat p);
          phi2 = toRadians (lat q);
          dlambda = toRadians (lon q - lon p);
          E = Fin 2 * m_atan2 M
                (m_tan M (dlambda / Fin 2) * (m_tan M (phi1 / Fin 2) + m_tan M (phi2 / Fin 2)))
                (Fin 1 + m_tan M (phi1 / Fin 2) * m_tan M (phi2 / Fin 2))
      in excess_loop M (q # ps) (S + E))"
| "excess_loop M ps S = S"

text \<open>
  \<open>isPoleEnclosedBy\<close>: its loop carries the sum of the bearing turns and the previous
  bearing.  With fewer than two vertices \<open>p[1]\<close> is \<open>undefined\<close> (or \<open>p[0]\<close> is), and the
  first call of \<open>initialBearingTo\<close> throws.
\<close>

fun turn_loop ::
  "js_math \<Rightarrow> LatLonSpherical list \<Rightarrow> jsnum \<times> jsnum \<Rightarrow> jsnum \<times> jsnum" where
  "turn_loop M (a # b # ps) (sum_delta, prevBrng) =
     (let initBrng = initialBearingTo M a b;
          finalBrng = finalBearingTo M a b;
          sum_delta = sum_delta + ((initBrng - prevBrng + Fin 540) mod Fin 360 - Fin 180);
          sum_delta = sum_delta + ((finalBrng - initBrng + Fin 540) mod Fin 360 - Fin 180)
      in turn_loop M (b # ps) (sum_delta, finalBrng))"
| "turn_loop M ps st = st"

definition isPoleEnclosedBy :: "js_math \<Rightarrow> LatLonSpherical list \<Rightarrow> js_error + bool" where
  "isPoleEnclosedBy M p =
     (case p of
        a # b # ps \<Rightarrow>
          let (sum_delta, prevBrng) = turn_loop M p (Fin 0, initialBearingTo M a b);
              initBrng = initialBearingTo M a b;
              sum_delta = sum_delta + ((initBrng - prevBrng + Fin 540) mod Fin 360 - Fin 180);
              enclosed = (\<bar>sum_delta\<bar> < Fin 90)
          in Inr enclosed
      | _ \<Rightarrow> Inl TypeError)"

text \<open>
  \<open>areaOf(polygon, radius)\<close> works on the caller's array: the result is paired with the
  array as the call leaves it.  On an empty array \<open>polygon[0].equals\<close> throws.
\<close>

definition areaOf ::
  "js_math \<Rightarrow> LatLonSpherical list \<Rightarrow> jsnum \<Rightarrow> (js_error + jsnum) \<times> LatLonSpherical list" where
  "areaOf M polygon0 radius =
     (case polygon0 of
        [] \<Rightarrow> (Inl TypeError, polygon0)
      | p0 # rest \<Rightarrow>
          let R = radius;
              closed = equals p0 (last polygon0);
              polygon = (if closed then polygon0 else polygon0 @ [p0]);
              S = excess_loop M polygon (Fin 0)
          in (case isPoleEnclosedBy M polygon of
                Inl e \<Rightarrow> (Inl e, polygon)
              | Inr enclosed \<Rightarrow>
                  let S = (if enclosed then \<bar>S\<bar> - Fin 2 * js_pi else S);
                      A = \<bar>S * R * R\<bar>;
                      polygon = (if closed then polygon else butlast polygon)
                  in (Inr A, polygon)))"

section \<open>Overflow\<close>

lemma threshold_large: "2 ^ 64 < overflow_threshold"
proof -
  have "(2::real) ^ 1024 = 2 ^ 970 * 2 ^ 54" by (simp flip: power_add)
  then have "overflow_threshold = 2 ^ 970 * (2 ^ 54 - 1)"
    by (simp add: overflow_threshold_def algebra_simps)
  moreover have "(2::real) ^ 64 * 1 \<le> 2 ^ 970 * 1"
    by (intro mult_right_mono power_increasing) auto
  moreover have "(2::real) ^ 970 * 1 < 2 ^ 970 * (2 ^ 54 - 1)"
    by (intro mult_strict_left_mono) auto
  ultimately show ?thesis by simp
qed

lemma fin_small [simp]: "\<bar>r\<bar> \<le> 2 ^ 64 \<Longrightarrow> fin r = Fin r"
  using threshold_large by (auto simp: fin_def)

lemma fin_below: "\<bar>r\<bar> < overflow_threshold \<Longrightarrow> fin r = Fin r"
  by (auto simp: fin_def)

lemma fin_cases: "fin r = Fin r \<or> fin r = PInf \<or> fin r = NInf"
  by (auto simp: fin_def)

lemma big_overflows: "overflow_threshold \<le> 360 * 2 ^ 1023"
proof -
  have "(2::real) ^ 1024 = 2 * 2 ^ 1023" by simp
  then have "overflow_threshold \<le> 2 * 2 ^ 1023" by (simp add: overflow_threshold_def)
  also have "\<dots> \<le> 360 * (2::real) ^ 1023" by simp
  finally show ?thesis .
qed

lemma max_double_below: "max_double + 2 ^ 64 < overflow_threshold"
proof -
  have "(2::real) ^ 971 = 2 ^ 970 + 2 ^ 970" by simp
  moreover have "(2::real) ^ 64 < 2 ^ 970" by (intro power_strict_increasing) auto
  ultimately show ?thesis by (simp add: max_double_def overflow_threshold_def)
qed

section \<open>Arithmetic of the remainder operator\<close>

lemma js_trunc_near: "\<bar>x - of_int (js_trunc x)\<bar> < 1"
  unfolding js_trunc_def by (simp; linarith)

lemma fmod_abs:
  assumes "0 < y"
  shows "\<bar>x - y * of_int (js_trunc (x / y))\<bar> < y"
proof -
  have "x - y * of_int (js_trunc (x / y)) = y * (x / y - of_int (js_trunc (x / y)))"
    using assms by (simp add: algebra_simps)
  moreover have "\<bar>y * (x / y - of_int (js_trunc (x / y)))\<bar> < y * 1"
    unfolding abs_mult using assms js_trunc_near [of "x / y"]
    by (simp add: abs_mult)
  ultimately show ?thesis by simp
qed

lemma fmod_nonneg:
  assumes "0 < y" "0 \<le> x"
  shows "0 \<le> x - y * of_int (js_trunc (x / y))"
proof -
  have "0 \<le> x / y" using assms by simp
  then have "of_int (js_trunc (x / y)) \<le> x / y"
    unfolding js_trunc_def by simp
  then have "y * of_int (js_trunc (x / y)) \<le> y * (x / y)"
    using assms by (intro mult_left_mono) auto
  then show ?thesis using assms by simp
qed

lemma true_modulo:
  assumes "0 < p" "p \<le> 2 ^ 62"
  shows "\<exists>r. ((Fin x mod Fin p) + Fin p) mod Fin p = Fin r \<and> 0 \<le> r \<and> r < p"
proof -
  define r1 where "r1 = x - p * of_int (js_trunc (x / p))"
  have a: "\<bar>r1\<bar> < p" unfolding r1_def using fmod_abs [OF assms(1)] .
  then have b: "0 \<le> r1 + p" by linarith
  have "\<bar>r1 + p\<bar> \<le> 2 * 2 ^ 62" using a assms by linarith
  then have s: "fin (r1 + p) = Fin (r1 + p)" by (intro fin_small) simp
  define r2 where "r2 = (r1 + p) - p * of_int (js_trunc ((r1 + p) / p))"
  have "0 \<le> r2" unfolding r2_def using fmod_nonneg [OF assms(1) b] .
  moreover have "r2 < p" unfolding r2_def using fmod_abs [OF assms(1), of "r1 + p"] by linarith
  moreover have "((Fin x mod Fin p) + Fin p) mod Fin p = Fin r2"
    using assms s by (simp add: r1_def r2_def)
  ultimately show ?thesis by blast
qed

lemma true_modulo_any:
  assumes "0 < p" "p \<le> 2 ^ 62"
  shows "((t mod Fin p) + Fin p) mod Fin p = NaN
         \<or> (\<exists>r. ((t mod Fin p) + Fin p) mod Fin p = Fin r \<and> 0 \<le> r \<and> r < p)"
proof (cases t)
  case (Fin x)
  then show ?thesis using true_modulo [OF assms] by simp
qed simp_all

section \<open>The wrap functions\<close>

text \<open>Whatever the argument, a wrap function returns NaN or a value of its range.\<close>

lemma wrap360_result: "wrap360 a = NaN \<or> (Fin 0 \<le> wrap360 a \<and> wrap360 a < Fin 360)"
proof (cases "Fin 0 \<le> a \<and> a < Fin 360")
  case True
  then show ?thesis by (simp add: wrap360_def)
next
  case False
  have "((Fin 2 * Fin 180 * a / Fin 360 mod Fin 360) + Fin 360) mod Fin 360 = NaN
         \<or> (\<exists>r. ((Fin 2 * Fin 180 * a / Fin 360 mod Fin 360) + Fin 360) mod Fin 360 = Fin r \<and> 0 \<le> r \<and> r < 360)"
    by (rule true_modulo_any) simp_all
  with False show ?thesis unfolding wrap360_def Let_def by auto
qed

lemma wrap180_result: "wrap180 a = NaN \<or> (Fin (- 180) \<le> wrap180 a \<and> wrap180 a \<le> Fin 180)"
proof (cases "Fin (- 180) \<le> a \<and> a \<le> Fin 180")
  case True
  then show ?thesis by (simp add: wrap180_def)
next
  case False
  let ?t = "Fin 2 * Fin 180 * a / Fin 360 - Fin 360 / Fin 2"
  have "((?t mod Fin 360) + Fin 360) mod Fin 360 = NaN
         \<or> (\<exists>r. ((?t mod Fin 360) + Fin 360) mod Fin 360 = Fin r \<and> 0 \<le> r \<and> r < 360)"
    by (rule true_modulo_any) simp_all
  then show ?thesis
  proof
    assume "((?t mod Fin 360) + Fin 360) mod Fin 360 = NaN"
    with False show ?thesis unfolding wrap180_def Let_def by (simp add: minus_jsnum_def)
  next
    assume "\<exists>r. ((?t mod Fin 360) + Fin 360) mod Fin 360 = Fin r \<and> 0 \<le> r \<and> r < 360"
    then obtain r where r: "((?t mod Fin 360) + Fin 360) mod Fin 360 = Fin r" "0 \<le> r" "r < 360"
      by blast
    have "Fin r - Fin 180 = Fin (r - 180)" using r by (simp add: minus_jsnum_def)
    with False r show ?thesis unfolding wrap180_def Let_def by simp
  qed
qed

lemma wrap90_result: "wrap90 a = NaN \<or> (Fin (- 90) \<le> wrap90 a \<and> wrap90 a \<le> Fin 90)"
proof (cases "Fin (- 90) \<le> a \<and> a \<le> Fin 90")
  case True
  then show ?thesis by (simp add: wrap90_def)
next
  case False
  let ?t = "a - Fin 360 / Fin 4"
  have one: "Fin 4 * Fin 90 / Fin 360 = Fin 1" by simp
  have "((?t mod Fin 360) + Fin 360) mod Fin 360 = NaN
         \<or> (\<exists>r. ((?t mod Fin 360) + Fin 360) mod Fin 360 = Fin r \<and> 0 \<le> r \<and> r < 360)"
    by (rule true_modulo_any) simp_all
  then show ?thesis
  proof
    assume "((?t mod Fin 360) + Fin 360) mod Fin 360 = NaN"
    with False show ?thesis unfolding wrap90_def Let_def one by (simp add: minus_jsnum_def)
  next
    assume "\<exists>r. ((?t mod Fin 360) + Fin 360) mod Fin 360 = Fin r \<and> 0 \<le> r \<and> r < 360"
    then obtain r where r: "((?t mod Fin 360) + Fin 360) mod Fin 360 = Fin r" "0 \<le> r" "r < 360"
      by blast
    have "Fin 1 * \<bar>Fin r - Fin 360 / Fin 2\<bar> - Fin 90 = Fin (\<bar>r - 180\<bar> - 90)"
      using r by (simp add: minus_jsnum_def)
    moreover have "- 90 \<le> \<bar>r - 180\<bar> - 90" "\<bar>r - 180\<bar> - 90 \<le> 90" using r by auto
    ultimately show ?thesis using False r unfolding wrap90_def Let_def one by simp
  qed
qed

text \<open>
  Where the product with 360 does not overflow (for \<open>wrap90\<close>: on every finite double) the
  result is a finite value of the range.
\<close>

lemma wrap360_no_overflow:
  assumes "360 * \<bar>x\<bar> < overflow_threshold"
  shows "\<exists>r. wrap360 (Fin x) = Fin r \<and> 0 \<le> r \<and> r < 360"
proof (cases "0 \<le> x \<and> x < 360")
  case True
  then show ?thesis by (simp add: wrap360_def)
next
  case False
  have "\<bar>360 * x\<bar> < overflow_threshold" using assms by (simp add: abs_mult)
  then have a: "Fin 360 * Fin x = Fin (360 * x)" by (simp add: fin_below)
  have "\<bar>x\<bar> \<le> 360 * \<bar>x\<bar>" by simp
  then have "\<bar>x\<bar> < overflow_threshold" using assms by linarith
  then have b: "Fin (360 * x) / Fin 360 = Fin x" by (simp add: fin_below)
  have t: "Fin 2 * Fin 180 * Fin x / Fin 360 = Fin x" using a b by simp
  obtain r where "((Fin x mod Fin 360) + Fin 360) mod Fin 360 = Fin r" "0 \<le> r" "r < 360"
    using true_modulo [of 360 x] by auto
  with False t show ?thesis unfolding wrap360_def Let_def by simp
qed

lemma wrap180_no_overflow:
  assumes "360 * \<bar>x\<bar> < overflow_threshold"
  shows "\<exists>r. wrap180 (Fin x) = Fin r \<and> - 180 \<le> r \<and> r \<le> 180"
proof (cases "- 180 \<le> x \<and> x \<le> 180")
  case True
  then show ?thesis by (simp add: wrap180_def)
next
  case False
  then have big: "180 < \<bar>x\<bar>" by auto
  have "\<bar>360 * x\<bar> < overflow_threshold" using assms by (simp add: abs_mult)
  then have a: "Fin 360 * Fin x = Fin (360 * x)" by (simp add: fin_below)
  have "\<bar>x\<bar> \<le> 360 * \<bar>x\<bar>" by simp
  then have "\<bar>x\<bar> < overflow_threshold" using assms by linarith
  then have b: "Fin (360 * x) / Fin 360 = Fin x" by (simp add: fin_below)
  have "\<bar>x - 180\<bar> \<le> 2 * \<bar>x\<bar>" using big by linarith
  then have "\<bar>x - 180\<bar> < overflow_threshold" using assms by linarith
  then have c: "Fin x - Fin 180 = Fin (x - 180)" by (simp add: minus_jsnum_def fin_below)
  have t: "Fin 2 * Fin 180 * Fin x / Fin 360 - Fin 360 / Fin 2 = Fin (x - 180)"
    using a b c by simp
  obtain r where r: "((Fin (x - 180) mod Fin 360) + Fin 360) mod Fin 360 = Fin r" "0 \<le> r" "r < 360"
    using true_modulo [of 360 "x - 180"] by auto
  have "Fin r - Fin 180 = Fin (r - 180)" using r by (simp add: minus_jsnum_def)
  with False t r show ?thesis unfolding wrap180_def Let_def by simp
qed

lemma wrap90_finite:
  assumes "\<bar>x\<bar> \<le> max_double"
  shows "\<exists>r. wrap90 (Fin x) = Fin r \<and> - 90 \<le> r \<and> r \<le> 90"
proof (cases "- 90 \<le> x \<and> x \<le> 90")
  case True
  then show ?thesis by (simp add: wrap90_def)
next
  case False
  have "\<bar>x - 90\<bar> \<le> max_double + 2 ^ 64" using assms by (simp; linarith)
  then have "\<bar>x - 90\<bar> < overflow_threshold" using max_double_below by linarith
  then have c: "Fin x - Fin 360 / Fin 4 = Fin (x - 90)" by (simp add: minus_jsnum_def fin_below)
  have one: "Fin 4 * Fin 90 / Fin 360 = Fin 1" by simp
  obtain r where r: "((Fin (x - 90) mod Fin 360) + Fin 360) mod Fin 360 = Fin r" "0 \<le> r" "r < 360"
    using true_modulo [of 360 "x - 90"] by auto
  have "Fin 1 * \<bar>Fin r - Fin 360 / Fin 2\<bar> - Fin 90 = Fin (\<bar>r - 180\<bar> - 90)"
    using r by (simp add: minus_jsnum_def)
  moreover have "- 90 \<le> \<bar>r - 180\<bar> - 90" "\<bar>r - 180\<bar> - 90 \<le> 90" using r by auto
  ultimately show ?thesis using False r c unfolding wrap90_def Let_def one by simp
qed

lemma two_1023_double: "(2::real) ^ 1023 \<le> max_double"
proof -
  have "(2::real) ^ 1024 = 2 ^ 1023 + 2 ^ 1023" by simp
  moreover have "(2::real) ^ 971 \<le> 2 ^ 1023" by (intro power_increasing) auto
  ultimately show ?thesis by (simp add: max_double_def)
qed

lemma no_overflow_double:
  assumes "360 * \<bar>x\<bar> < overflow_threshold"
  shows "\<bar>x\<bar> \<le> max_double"
proof -
  have "overflow_threshold \<le> 2 * 2 ^ 1023" by (simp add: overflow_threshold_def)
  also have "\<dots> \<le> 360 * max_double" using two_1023_double by simp
  finally show ?thesis using assms by simp
qed

lemma wrap_idempotent_without_overflow:
  assumes "360 * \<bar>x\<bar> < overflow_threshold"
  shows "wrap90 (wrap90 (Fin x)) = wrap90 (Fin x)
   \<and> wrap180 (wrap180 (Fin x)) = wrap180 (Fin x)
   \<and> wrap360 (wrap360 (Fin x)) = wrap360 (Fin x)
   \<and> Fin (- 90) \<le> wrap90 (Fin x) \<and> wrap90 (Fin x) \<le> Fin 90
   \<and> Fin (- 180) \<le> wrap180 (Fin x) \<and> wrap180 (Fin x) \<le> Fin 180
   \<and> Fin 0 \<le> wrap360 (Fin x) \<and> wrap360 (Fin x) < Fin 360"
proof -
  obtain a where a: "wrap90 (Fin x) = Fin a" "- 90 \<le> a" "a \<le> 90"
    using wrap90_finite [OF no_overflow_double [OF assms]] by blast
  obtain b where b: "wrap180 (Fin x) = Fin b" "- 180 \<le> b" "b \<le> 180"
    using wrap180_no_overflow [OF assms] by blast
  obtain c where c: "wrap360 (Fin x) = Fin c" "0 \<le> c" "c < 360"
    using wrap360_no_overflow [OF assms] by blast
  have "wrap90 (Fin a) = Fin a" using a by (simp add: wrap90_def)
  moreover have "wrap180 (Fin b) = Fin b" using b by (simp add: wrap180_def)
  moreover have "wrap360 (Fin c) = Fin c" using c by (simp add: wrap360_def)
  ultimately show ?thesis using a b c by simp
qed

text \<open>
  C4.  The wrap functions at the boundary values of the specification:
  \<open>wrap90\<close> sends 91 to 89, -91 to -89 and 270 to -90; \<open>wrap180\<close> sends 181 to -179 and
  -181 to 179; \<open>wrap360\<close> sends -1 to 359 and 361 to 1.
\<close>

theorem wrap_boundary_values:
  "wrap90 (Fin 91) = Fin 89 \<and> wrap90 (Fin (- 91)) = Fin (- 89) \<and> wrap90 (Fin 270) = Fin (- 90)
   \<and> wrap180 (Fin 181) = Fin (- 179) \<and> wrap180 (Fin (- 181)) = Fin 179
   \<and> wrap360 (Fin (- 1)) = Fin 359 \<and> wrap360 (Fin 361) = Fin 1"
  by (simp add: wrap90_def wrap180_def wrap360_def Let_def minus_jsnum_def js_trunc_def)

text \<open>
  The overflow at \<open>2^1023\<close>, a finite double: the product with \<open>2 * a = 360\<close> is Infinity
  and its remainder is NaN.
\<close>

lemma two_1023_large: "\<not> (2::real) ^ 1023 < 360" "\<not> (2::real) ^ 1023 \<le> 180"
proof -
  have "(2::real) ^ 9 \<le> 2 ^ 1023" by (intro power_increasing) auto
  then show "\<not> (2::real) ^ 1023 < 360" "\<not> (2::real) ^ 1023 \<le> 180" by auto
qed

lemma times_360_overflow: "Fin 360 * Fin (2 ^ 1023) = PInf"
  using big_overflows by (simp add: fin_def)

lemma wrap360_overflow: "wrap360 (Fin (2 ^ 1023)) = NaN"
  using times_360_overflow two_1023_large by (simp add: wrap360_def Let_def)

lemma wrap180_overflow: "wrap180 (Fin (2 ^ 1023)) = NaN"
  using times_360_overflow two_1023_large by (simp add: wrap180_def Let_def minus_jsnum_def)

lemma wrap90_infinity: "wrap90 PInf = NaN"
  by (simp add: wrap90_def Let_def minus_jsnum_def)

text \<open>
  C5.  Idempotence fails on a finite double: \<open>wrap180\<close> and \<open>wrap360\<close> multiply their
  argument by \<open>2 * a = 360\<close> before dividing by \<open>p = 360\<close>.  At \<open>2^1023\<close> the product
  overflows to Infinity, the remainder of Infinity is NaN, and both functions return NaN:
  a value outside the range, and not \<open>==\<close> to the wrap of itself.
\<close>

theorem wrap_overflow_not_idempotent:
  "(2::real) ^ 1023 \<le> max_double
   \<and> wrap360 (Fin (2 ^ 1023)) = NaN \<and> wrap180 (Fin (2 ^ 1023)) = NaN
   \<and> \<not> js_eq (wrap360 (wrap360 (Fin (2 ^ 1023)))) (wrap360 (Fin (2 ^ 1023)))
   \<and> \<not> js_eq (wrap180 (wrap180 (Fin (2 ^ 1023)))) (wrap180 (Fin (2 ^ 1023)))"
  using two_1023_double wrap360_overflow wrap180_overflow by (simp add: js_eq_def)

section \<open>Compass points\<close>

text \<open>
  Without the overflow the index is one of the sixteen entries of the table: for a
  precision of 1, 2 or 3 and a bearing whose product with 360 is below the overflow
  threshold, \<open>compassPoint\<close> returns a compass point.
\<close>

lemma js_trunc_nonneg_quotient:
  assumes "0 \<le> q" "0 < n"
  shows "js_trunc (of_int q / of_int n) = q div n"
proof -
  have "(0::real) \<le> of_int q / of_int n" using assms by simp
  then show ?thesis by (simp add: js_trunc_def floor_divide_of_int_eq)
qed

lemma sector_index:
  assumes n: "n = 4 \<or> n = 8 \<or> n = 16" and q: "0 \<le> q" "q \<le> n"
  shows "\<exists>k<16. Fin (of_int q) mod Fin (of_int n) * Fin 16 / Fin (of_int n) = Fin (real k)"
proof -
  have npos: "0 < n" using n by auto
  have m: "Fin (of_int q) mod Fin (of_int n) = Fin (of_int (q mod n))"
    using npos js_trunc_nonneg_quotient [OF q(1) npos]
    by (simp add: minus_mult_div_eq_mod flip: of_int_mult of_int_diff)
  define k where "k = nat ((q mod n) * (16 div n))"
  have qm: "0 \<le> q mod n" "q mod n < n" using npos by simp_all
  then have k16: "k < 16" unfolding k_def using n by auto
  have e: "(of_int (q mod n) :: real) * 16 / of_int n = real k"
  proof -
    have "(of_int (q mod n) :: real) * 16 / of_int n = of_int ((q mod n) * (16 div n))"
      using n by auto
    also have "\<dots> = real k" unfolding k_def using qm n by auto
    finally show ?thesis .
  qed
  have b1: "\<bar>(of_int (q mod n) :: real) * 16\<bar> \<le> 2 ^ 64"
  proof -
    have "(of_int (q mod n) :: real) \<le> 16" using qm n by auto
    moreover have "(0::real) \<le> of_int (q mod n)" using qm by simp
    ultimately have "\<bar>(of_int (q mod n) :: real) * 16\<bar> \<le> 16 * 16" by simp
    then show ?thesis by simp
  qed
  have b2: "\<bar>(of_int (q mod n) :: real) * 16 / of_int n\<bar> \<le> 2 ^ 64"
    unfolding e using k16 by simp
  have "Fin (of_int (q mod n)) * Fin 16 / Fin (of_int n) = Fin (real k)"
    using npos fin_small [OF b1] fin_small [OF b2] e by simp
  with m k16 show ?thesis by auto
qed

lemma array_get_cardinals:
  "k < 16 \<Longrightarrow> array_get cardinals (Fin (real k)) = Some (cardinals ! k)"
  by (simp add: array_get_def cardinals_def)

lemma compass_sectors:
  assumes "precision = Fin 1 \<or> precision = Fin 2 \<or> precision = Fin 3"
  shows "\<exists>n::int. (n = 4 \<or> n = 8 \<or> n = 16) \<and> Fin 4 * two_pow (precision - Fin 1) = Fin (of_int n)"
  using assms by (auto simp: minus_jsnum_def)

lemma round_sector:
  assumes "0 \<le> r" "r < 360" "n = 4 \<or> n = 8 \<or> n = (16::int)"
  shows "\<exists>q. 0 \<le> q \<and> q \<le> n \<and> Math_round (Fin r * Fin (of_int n) / Fin 360) = Fin (of_int q)"
proof -
  have npos: "0 < n" "n \<le> 16" using assms by auto
  define q where "q = \<lfloor>r * of_int n / 360 + 1 / 2\<rfloor>"
  have "0 \<le> r * of_int n / 360" using assms npos by simp
  then have q0: "0 \<le> q" unfolding q_def by linarith
  have "r * of_int n < 360 * of_int n" using assms npos by simp
  then have "r * of_int n / 360 + 1 / 2 < of_int n + 1" by simp
  then have "q < n + 1" unfolding q_def by linarith
  then have qn: "q \<le> n" by simp
  have "r * of_int n \<le> 360 * 16" using assms npos by (intro mult_mono) auto
  then have b1: "\<bar>r * of_int n\<bar> \<le> 2 ^ 64" using assms npos by simp
  then have b2: "\<bar>r * of_int n / 360\<bar> \<le> 2 ^ 64" by simp
  have b3: "\<bar>(of_int q :: real)\<bar> \<le> 2 ^ 64" using q0 qn npos by simp
  have "Math_round (Fin r * Fin (of_int n) / Fin 360) = Fin (of_int q)"
    using fin_small [OF b1] fin_small [OF b2] fin_small [OF b3] by (simp add: q_def)
  with q0 qn show ?thesis by blast
qed

lemma compassPoint_index_without_overflow:
  assumes p: "precision = Fin 1 \<or> precision = Fin 2 \<or> precision = Fin 3"
    and b: "360 * \<bar>bearing\<bar> < overflow_threshold"
  shows "\<exists>k<length cardinals.
           compassPoint (Fin bearing) (JNum precision) = Inr (Some (cardinals ! k))"
proof -
  obtain n :: int where n: "n = 4 \<or> n = 8 \<or> n = 16"
    and pn: "Fin 4 * two_pow (precision - Fin 1) = Fin (of_int n)"
    using compass_sectors [OF p] by blast
  obtain r where r: "wrap360 (Fin bearing) = Fin r" "0 \<le> r" "r < 360"
    using wrap360_no_overflow [OF b] by blast
  obtain q where q: "0 \<le> q" "q \<le> n"
    and rq: "Math_round (Fin r * Fin (of_int n) / Fin 360) = Fin (of_int q)"
    using round_sector [OF r(2) r(3) n] by blast
  obtain k where k: "k < 16"
    and ik: "Fin (of_int q) mod Fin (of_int n) * Fin 16 / Fin (of_int n) = Fin (real k)"
    using sector_index [OF n q] by blast
  have idx: "Math_round (wrap360 (Fin bearing) * (Fin 4 * two_pow (precision - Fin 1)) / Fin 360)
             mod (Fin 4 * two_pow (precision - Fin 1)) * Fin 16 / (Fin 4 * two_pow (precision - Fin 1))
             = Fin (real k)"
    unfolding pn r(1) rq ik ..
  have "compassPoint (Fin bearing) (JNum precision) = Inr (array_get cardinals (Fin (real k)))"
    using p idx unfolding compassPoint_def Let_def by auto
  then have "compassPoint (Fin bearing) (JNum precision) = Inr (Some (cardinals ! k))"
    using array_get_cardinals [OF k] by simp
  moreover have "length cardinals = 16" by (simp add: cardinals_def)
  ultimately show ?thesis using k by auto
qed

text \<open>
  C10.  At the finite bearing \<open>2^1023\<close> the wrapped bearing is NaN (the overflow of
  \<open>wrap360\<close>), so the index is NaN and the table gives \<open>undefined\<close>, for the default
  precision and for each of 1, 2 and 3.
\<close>

theorem compassPoint_overflow_undefined:
  "(2::real) ^ 1023 \<le> max_double
   \<and> compassPoint (Fin (2 ^ 1023)) JUndefined = Inr None
   \<and> compassPoint (Fin (2 ^ 1023)) (JNum (Fin 1)) = Inr None
   \<and> compassPoint (Fin (2 ^ 1023)) (JNum (Fin 2)) = Inr None
   \<and> compassPoint (Fin (2 ^ 1023)) (JNum (Fin 3)) = Inr None"
  using two_1023_double wrap360_overflow
  by (simp add: compassPoint_def Let_def array_get_def minus_jsnum_def)

section \<open>Formatting\<close>

lemmas string_eval = StringToNumber_def js_trim_def is_space_def read_signed_def read_unsigned_def
  is_digit_def read_exponent_def scale10_def digits_value_def

lemmas format_eval = toDms_def toDms_d_def toDms_dm_def toDms_dms_def toFixed_def
  to_fixed_digits_def dec.simps NumberToString_def bind_err_def isNaN_def loose_eq_num_def
  js_eq_def slice_last_def js_trunc_def Let_def minus_jsnum_def

lemma toDms_minus_20:
  "toDms repr sep (JNum (Fin (- 20))) JUndefined JUndefined = Inr (Some (asc ''020.0000'' @ [176]))"
  by (simp add: format_eval string_eval)

text \<open>
  C6.  \<open>toLat\<close> formats the wrapped latitude and takes the hemisphere letter from the
  argument as given, \<open>deg<0\<close>: at 200 the wrapped latitude is -20, the digits are those of
  20, and the suffix is N, where the same wrapped latitude given as -20 has the suffix S.
\<close>

theorem toLat_suffix_from_unwrapped_value:
  "wrap90 (Fin 200) = Fin (- 20)
   \<and> toLat repr sep (Fin 200) JUndefined JUndefined = Inr (asc ''20.0000'' @ [176] @ sep @ asc ''N'')
   \<and> toLat repr sep (Fin (- 20)) JUndefined JUndefined = Inr (asc ''20.0000'' @ [176] @ sep @ asc ''S'')"
proof -
  have w: "wrap90 (Fin 200) = Fin (- 20)" "wrap90 (Fin (- 20)) = Fin (- 20)"
    by (simp_all add: wrap90_def Let_def minus_jsnum_def js_trunc_def)
  have "toLat repr sep (Fin 200) JUndefined JUndefined
          = Inr (asc ''20.0000'' @ [176] @ sep @ asc ''N'')"
    unfolding toLat_def w by (simp add: toDms_minus_20 bind_err_def)
  moreover have "toLat repr sep (Fin (- 20)) JUndefined JUndefined
          = Inr (asc ''20.0000'' @ [176] @ sep @ asc ''S'')"
    unfolding toLat_def w by (simp add: toDms_minus_20 bind_err_def)
  ultimately show ?thesis using w by simp
qed

lemma toDms_fraction_360:
  "toDms repr sep (JNum (Fin (5899 / 16384))) JUndefined JUndefined
     = Inr (Some (asc ''000.3600'' @ [176]))"
  by (simp add: format_eval string_eval)

text \<open>
  C7.  \<open>toBrng\<close> replaces the first \<open>360\<close> of the formatted string wherever it stands.
  The bearing 5899/16384 (0.36004638671875, a double) is in range and is formatted as
  \<open>000.3600\<close> with the degree sign: nothing was rounded up to 360 degrees, and \<open>toBrng\<close>
  returns \<open>000.00\<close> with the degree sign.
\<close>

theorem toBrng_replaces_fraction_digits:
  "wrap360 (Fin (5899 / 16384)) = Fin (5899 / 16384)
   \<and> toDms repr sep (JNum (wrap360 (Fin (5899 / 16384)))) JUndefined JUndefined
       = Inr (Some (asc ''000.3600'' @ [176]))
   \<and> toBrng repr sep (Fin (5899 / 16384)) JUndefined JUndefined = Inr (asc ''000.00'' @ [176])"
proof -
  have w: "wrap360 (Fin (5899 / 16384)) = Fin (5899 / 16384)"
    by (simp add: wrap360_def)
  have "toBrng repr sep (Fin (5899 / 16384)) JUndefined JUndefined = Inr (asc ''000.00'' @ [176])"
    unfolding toBrng_def w by (simp add: toDms_fraction_360 bind_err_def)
  then show ?thesis using w toDms_fraction_360 by simp
qed

lemma toDms_deg_min:
  "toDms repr sep (JNum (Fin (3 / 2))) (JStr (asc ''deg+min'')) JUndefined
     = Inr (Some (asc ''001'' @ [176] @ sep @ asc ''30.00'' @ [8242]))"
  by (simp add: format_eval string_eval)

lemma toDms_d_4:
  "toDms repr sep (JNum (Fin (3 / 2))) (JStr (asc ''d'')) (JNum (Fin 4))
     = Inr (Some (asc ''001.5000'' @ [176]))"
  by (simp add: format_eval string_eval)

lemma toDms_negative_infinity:
  "toDms repr sep (JNum NInf) JUndefined JUndefined = Inr (Some (asc ''Infinity'' @ [176]))"
  by (simp add: format_eval string_eval)

text \<open>
  C3, as stated, fails at two inputs.  The format \<open>'deg+min'\<close> is not one of \<open>d\<close>, \<open>dm\<close>,
  \<open>dms\<close>, and it is formatted as degrees and minutes, not as \<open>'d'\<close> with 4 decimals: the
  code accepts \<open>'deg'\<close>, \<open>'deg+min'\<close> and \<open>'deg+min+sec'\<close> as names of the three styles.
  And -Infinity is not \<open>== Infinity\<close>: it passes the tests, and the result is the text
  \<open>Infinity\<close> with the degree sign, not \<open>null\<close>.
\<close>

theorem toDms_alias_and_negative_infinity:
  "(\<forall>repr. toDms repr [8239] (JNum (Fin (3 / 2))) (JStr (asc ''deg+min'')) JUndefined
             = Inr (Some (asc ''001'' @ [176, 8239] @ asc ''30.00'' @ [8242])))
   \<and> (\<forall>repr. toDms repr [8239] (JNum (Fin (3 / 2))) (JStr (asc ''d'')) (JNum (Fin 4))
             = Inr (Some (asc ''001.5000'' @ [176])))
   \<and> (\<forall>repr. toDms repr [8239] (JNum NInf) JUndefined JUndefined
             = Inr (Some (asc ''Infinity'' @ [176])))"
  using toDms_deg_min [of _ "[8239]"] toDms_d_4 [of _ "[8239]"] toDms_negative_infinity [of _ "[8239]"]
  by simp

text \<open>
  C3, amended.  For an argument that converts to NaN, an empty or whitespace-only string,
  a boolean or +Infinity, \<open>toDms\<close> returns \<open>null\<close> and throws nothing, whatever the format
  and \<open>dp\<close>; and with \<open>dp\<close> undefined every format other than \<open>'d'\<close>, \<open>'deg'\<close>, \<open>'dm'\<close>,
  \<open>'deg+min'\<close>, \<open>'dms'\<close> and \<open>'deg+min+sec'\<close> gives what \<open>'d'\<close> with 4 decimals gives.
\<close>

theorem toDms_null_and_fallback:
  "(isNaN deg \<or> (\<exists>s. deg = JStr s \<and> js_trim s = []) \<or> (\<exists>b. deg = JBool b)
      \<or> deg = JNum PInf
      \<longrightarrow> toDms repr sep deg format dp = Inr None)
   \<and> (format \<notin> {JStr (asc ''d''), JStr (asc ''deg''), JStr (asc ''dm''), JStr (asc ''deg+min''),
                   JStr (asc ''dms''), JStr (asc ''deg+min+sec'')}
      \<longrightarrow> toDms repr sep deg format JUndefined
            = toDms repr sep deg (JStr (asc ''d'')) (JNum (Fin 4)))"
proof -
  have a: "toDms repr sep deg format dp = Inr None"
    if "isNaN deg \<or> (\<exists>s. deg = JStr s \<and> js_trim s = []) \<or> (\<exists>b. deg = JBool b)
      \<or> deg = JNum PInf"
    using that unfolding toDms_def Let_def
    by (auto simp: loose_eq_num_def js_eq_def)
  have b: "toDms repr sep deg format JUndefined
            = toDms repr sep deg (JStr (asc ''d'')) (JNum (Fin 4))"
    if "format \<notin> {JStr (asc ''d''), JStr (asc ''deg''), JStr (asc ''dm''), JStr (asc ''deg+min''),
                   JStr (asc ''dms''), JStr (asc ''deg+min+sec'')}"
    using that unfolding toDms_def Let_def by simp
  from a b show ?thesis by blast
qed

theorem toDms_null_and_fallback_witness:
  "(isNaN (JNum NaN) \<or> (\<exists>s. JNum NaN = JStr s \<and> js_trim s = []) \<or> (\<exists>b. JNum NaN = JBool b)
      \<or> JNum NaN = JNum PInf)
   \<and> toDms (\<lambda>x. []) [8239] (JNum NaN) (JStr (asc ''dms'')) JUndefined = Inr None
   \<and> JStr (asc ''degrees'') \<notin> {JStr (asc ''d''), JStr (asc ''deg''), JStr (asc ''dm''),
         JStr (asc ''deg+min''), JStr (asc ''dms''), JStr (asc ''deg+min+sec'')}
   \<and> toDms (\<lambda>x. []) [8239] (JNum (Fin (3 / 2))) (JStr (asc ''degrees'')) JUndefined
       = Inr (Some (asc ''001.5000'' @ [176]))"
proof -
  have h1: "isNaN (JNum NaN)" by (simp add: isNaN_def)
  have h2: "JStr (asc ''degrees'') \<notin> {JStr (asc ''d''), JStr (asc ''deg''), JStr (asc ''dm''),
         JStr (asc ''deg+min''), JStr (asc ''dms''), JStr (asc ''deg+min+sec'')}"
    by simp
  show ?thesis
    using h1 h2 toDms_d_4 [of "\<lambda>x. []" "[8239]"]
      toDms_null_and_fallback [where deg = "JNum NaN" and repr = "\<lambda>x. []" and sep = "[8239]"
        and format = "JStr (asc ''dms'')" and dp = JUndefined]
      toDms_null_and_fallback [where deg = "JNum (Fin (3 / 2))" and repr = "\<lambda>x. []"
        and sep = "[8239]" and format = "JStr (asc ''degrees'')" and dp = JUndefined]
    by simp
qed

section \<open>Points: the constructor and the setters\<close>

lemmas parse_eval = Dms_parse_def parseFloat_def parseFloat_string_def isFinite_def
  split_nonnumeric.simps strip_minus_def strip_compass_def last_in_def is_numeric_char_def Let_def

lemma isNaN_dms_text: "isNaN (JStr (asc ''3 37 12W''))" "isNaN (JStr (asc ''3 30 00W''))"
  by (simp_all add: isNaN_def string_eval Let_def)

lemma parse_dms_text: "Dms_parse repr (JStr (asc ''3 37 12W'')) = Inr (Fin (- 3.62))"
  by (simp add: parse_eval string_eval)

lemma parse_dms_exact: "Dms_parse repr (JStr (asc ''3 30 00W'')) = Inr (Fin (- 3.5))"
  by (simp add: parse_eval string_eval)

lemma set_lat_stored:
  assumes "set_lat repr v this = (Inr (), this')"
  shows "\<exists>x. this' = this\<lparr>lat := x\<rparr> \<and> x \<noteq> NaN \<and> (\<exists>a. x = wrap90 a)"
  using assms unfolding set_lat_def bind_err_def
  by (auto split: sum.splits if_splits)

lemma set_lon_stored:
  assumes "set_lon repr v this = (Inr (), this')"
  shows "\<exists>x. this' = this\<lparr>lon := x\<rparr> \<and> x \<noteq> NaN \<and> (\<exists>a. x = wrap180 a)"
  using assms unfolding set_lon_def bind_err_def
  by (auto split: sum.splits if_splits)

text \<open>
  C1, as stated, fails: a longitude of exactly -180 is stored as it is, since \<open>wrap180\<close> is
  the identity on the closed range \<open>[-180, 180]\<close>.  The constructor refuses NaN only
  before wrapping: an infinite latitude, and the finite longitude \<open>2^1023\<close>, are stored as
  NaN.  A setter assigns before it tests, so the one that throws on an infinite latitude
  leaves NaN in the field.
\<close>

theorem longitude_minus_180_stored:
  "new_LatLonSpherical (JNum (Fin 0)) (JNum (Fin (- 180))) = Inr \<lparr>lat = Fin 0, lon = Fin (- 180)\<rparr>
   \<and> \<not> Fin (- 180) < lon \<lparr>lat = Fin 0, lon = Fin (- 180)\<rparr>
   \<and> new_LatLonSpherical (JNum PInf) (JNum (Fin 0)) = Inr \<lparr>lat = NaN, lon = Fin 0\<rparr>
   \<and> (2::real) ^ 1023 \<le> max_double
   \<and> new_LatLonSpherical (JNum (Fin 0)) (JNum (Fin (2 ^ 1023))) = Inr \<lparr>lat = Fin 0, lon = NaN\<rparr>
   \<and> (\<forall>repr. set_lat repr (JNum PInf) \<lparr>lat = Fin 0, lon = Fin 0\<rparr>
               = (Inl TypeError, \<lparr>lat = NaN, lon = Fin 0\<rparr>))"
proof -
  have a: "new_LatLonSpherical (JNum (Fin 0)) (JNum (Fin (- 180)))
             = Inr \<lparr>lat = Fin 0, lon = Fin (- 180)\<rparr>"
    by (simp add: new_LatLonSpherical_def isNaN_def wrap90_def wrap180_def)
  have b: "new_LatLonSpherical (JNum PInf) (JNum (Fin 0)) = Inr \<lparr>lat = NaN, lon = Fin 0\<rparr>"
    by (simp add: new_LatLonSpherical_def isNaN_def wrap90_infinity wrap180_def)
  have c: "new_LatLonSpherical (JNum (Fin 0)) (JNum (Fin (2 ^ 1023)))
             = Inr \<lparr>lat = Fin 0, lon = NaN\<rparr>"
    unfolding new_LatLonSpherical_def isNaN_def ToNumber.simps wrap180_overflow
    by (simp add: wrap90_def)
  have d: "set_lat repr (JNum PInf) \<lparr>lat = Fin 0, lon = Fin 0\<rparr>
             = (Inl TypeError, \<lparr>lat = NaN, lon = Fin 0\<rparr>)" for repr
    by (simp add: set_lat_def isNaN_def wrap90_infinity)
  show ?thesis using a b c d two_1023_double by simp
qed

lemma small_is_double: "\<bar>x\<bar> \<le> 2 ^ 32 \<Longrightarrow> \<bar>x\<bar> \<le> max_double \<and> 360 * \<bar>x\<bar> < overflow_threshold"
proof -
  assume a: "\<bar>x\<bar> \<le> 2 ^ 32"
  have "360 * \<bar>x\<bar> \<le> 2 ^ 9 * 2 ^ 32" using a by (intro mult_mono) auto
  also have "\<dots> \<le> (2::real) ^ 64" by simp
  finally have "360 * \<bar>x\<bar> < overflow_threshold" using threshold_large by linarith
  then show ?thesis using no_overflow_double by blast
qed

text \<open>
  C1, amended.  A point constructed from a latitude that converts to a finite double and a
  longitude that converts to a number whose product with 360 does not overflow has its
  latitude in \<open>[-90, 90]\<close> and its longitude in the closed range \<open>[-180, 180]\<close>; and
  whenever a lat or lon setter returns without an exception, the coordinate it stored is
  in that range and the other coordinate is unchanged.
\<close>

theorem point_coordinates_in_range:
  "(ToNumber la = Fin x \<and> \<bar>x\<bar> \<le> max_double \<and> ToNumber lo = Fin y \<and> 360 * \<bar>y\<bar> < overflow_threshold
      \<longrightarrow> (\<exists>p. new_LatLonSpherical la lo = Inr p
             \<and> Fin (- 90) \<le> lat p \<and> lat p \<le> Fin 90 \<and> Fin (- 180) \<le> lon p \<and> lon p \<le> Fin 180))
   \<and> (set_lat repr v this = (Inr (), this') \<longrightarrow>
         Fin (- 90) \<le> lat this' \<and> lat this' \<le> Fin 90 \<and> lon this' = lon this)
   \<and> (set_lon repr v this = (Inr (), this') \<longrightarrow>
         Fin (- 180) \<le> lon this' \<and> lon this' \<le> Fin 180 \<and> lat this' = lat this)"
proof -
  have ctor: "\<exists>p. new_LatLonSpherical la lo = Inr p
           \<and> Fin (- 90) \<le> lat p \<and> lat p \<le> Fin 90 \<and> Fin (- 180) \<le> lon p \<and> lon p \<le> Fin 180"
    if f: "ToNumber la = Fin x \<and> \<bar>x\<bar> \<le> max_double \<and> ToNumber lo = Fin y
           \<and> 360 * \<bar>y\<bar> < overflow_threshold"
  proof -
    obtain r where r: "wrap90 (Fin x) = Fin r" "- 90 \<le> r" "r \<le> 90"
      using wrap90_finite f by blast
    obtain s where s: "wrap180 (Fin y) = Fin s" "- 180 \<le> s" "s \<le> 180"
      using wrap180_no_overflow f by blast
    show ?thesis using f r s by (simp add: new_LatLonSpherical_def isNaN_def)
  qed
  have slat: "Fin (- 90) \<le> lat this' \<and> lat this' \<le> Fin 90 \<and> lon this' = lon this"
    if "set_lat repr v this = (Inr (), this')"
  proof -
    from that obtain x a where x: "this' = this\<lparr>lat := x\<rparr>" "x \<noteq> NaN" "x = wrap90 a"
      using set_lat_stored by blast
    with wrap90_result [of a] show ?thesis by simp
  qed
  have slon: "Fin (- 180) \<le> lon this' \<and> lon this' \<le> Fin 180 \<and> lat this' = lat this"
    if "set_lon repr v this = (Inr (), this')"
  proof -
    from that obtain x a where x: "this' = this\<lparr>lon := x\<rparr>" "x \<noteq> NaN" "x = wrap180 a"
      using set_lon_stored by blast
    with wrap180_result [of a] show ?thesis by simp
  qed
  from ctor slat slon show ?thesis by blast
qed

theorem point_coordinates_in_range_witness:
  "(ToNumber (JNum (Fin 91)) = Fin 91 \<and> \<bar>91\<bar> \<le> max_double
      \<and> ToNumber (JNum (Fin 540)) = Fin 540 \<and> 360 * \<bar>540\<bar> < overflow_threshold)
   \<and> new_LatLonSpherical (JNum (Fin 91)) (JNum (Fin 540)) = Inr \<lparr>lat = Fin 89, lon = Fin (- 180)\<rparr>
   \<and> set_lat (\<lambda>x. []) (JStr (asc ''3 30 00W'')) \<lparr>lat = Fin 0, lon = Fin 0\<rparr>
         = (Inr (), \<lparr>lat = Fin (- 3.5), lon = Fin 0\<rparr>)
   \<and> Fin (- 90) \<le> lat \<lparr>lat = Fin (- 3.5), lon = Fin 0\<rparr>
   \<and> lat \<lparr>lat = Fin (- 3.5), lon = Fin 0\<rparr> \<le> Fin 90
   \<and> set_lon (\<lambda>x. []) (JNum (Fin 540)) \<lparr>lat = Fin 0, lon = Fin 0\<rparr>
         = (Inr (), \<lparr>lat = Fin 0, lon = Fin (- 180)\<rparr>)
   \<and> Fin (- 180) \<le> lon \<lparr>lat = Fin 0, lon = Fin (- 180)\<rparr>
   \<and> lon \<lparr>lat = Fin 0, lon = Fin (- 180)\<rparr> \<le> Fin 180"
proof -
  have h1: "\<bar>91\<bar> \<le> max_double" "360 * \<bar>540\<bar> < overflow_threshold"
    using small_is_double [of 91] small_is_double [of 540] by simp_all
  have w: "wrap90 (Fin 91) = Fin 89" "wrap180 (Fin 540) = Fin (- 180)"
    "wrap90 (Fin (- 3.5)) = Fin (- 3.5)"
    by (simp_all add: wrap90_def wrap180_def Let_def minus_jsnum_def js_trunc_def)
  have c: "new_LatLonSpherical (JNum (Fin 91)) (JNum (Fin 540)) = Inr \<lparr>lat = Fin 89, lon = Fin (- 180)\<rparr>"
    using w by (simp add: new_LatLonSpherical_def isNaN_def)
  have h2: "set_lat (\<lambda>x. []) (JStr (asc ''3 30 00W'')) \<lparr>lat = Fin 0, lon = Fin 0\<rparr>
              = (Inr (), \<lparr>lat = Fin (- 3.5), lon = Fin 0\<rparr>)"
    unfolding set_lat_def using isNaN_dms_text(2) w(3)
    by (simp only: if_True parse_dms_exact bind_err_def sum.case) simp
  have h3: "set_lon (\<lambda>x. []) (JNum (Fin 540)) \<lparr>lat = Fin 0, lon = Fin 0\<rparr>
              = (Inr (), \<lparr>lat = Fin 0, lon = Fin (- 180)\<rparr>)"
    using w by (simp add: set_lon_def isNaN_def)
  show ?thesis
    using h1 h2 h3 c
      point_coordinates_in_range [where la = "JNum (Fin 91)" and lo = "JNum (Fin 540)"
        and x = 91 and y = 540 and repr = "\<lambda>x. []"
        and v = "JStr (asc ''3 30 00W'')" and this = "\<lparr>lat = Fin 0, lon = Fin 0\<rparr>"
        and this' = "\<lparr>lat = Fin (- 3.5), lon = Fin 0\<rparr>"]
      point_coordinates_in_range [where la = "JNum (Fin 91)" and lo = "JNum (Fin 540)"
        and x = 91 and y = 540 and repr = "\<lambda>x. []"
        and v = "JNum (Fin 540)" and this = "\<lparr>lat = Fin 0, lon = Fin 0\<rparr>"
        and this' = "\<lparr>lat = Fin 0, lon = Fin (- 180)\<rparr>"]
    by simp
qed

text \<open>
  C8, as stated, fails: the constructor tests its arguments with \<open>isNaN\<close> and never calls
  \<open>Dms.parse\<close>, so the degree-minute-second text \<open>'3 37 12W'\<close> is a TypeError there,
  although \<open>Dms.parse\<close> converts it to a finite number.
\<close>

theorem constructor_rejects_dms_text:
  "new_LatLonSpherical (JStr (asc ''3 37 12W'')) (JNum (Fin 0)) = Inl TypeError
   \<and> (\<forall>repr. map_sum id is_fin (Dms_parse repr (JStr (asc ''3 37 12W''))) = Inr True)"
proof -
  have "new_LatLonSpherical (JStr (asc ''3 37 12W'')) (JNum (Fin 0)) = Inl TypeError"
    using isNaN_dms_text(1) by (simp add: new_LatLonSpherical_def)
  moreover have "\<forall>repr. map_sum id is_fin (Dms_parse repr (JStr (asc ''3 37 12W''))) = Inr True"
    unfolding parse_dms_text by simp
  ultimately show ?thesis by (rule conjI)
qed

text \<open>
  C8, amended.  The constructor accepts exactly the arguments that \<open>Number\<close> converts
  to something other than NaN, and stores \<open>wrap90\<close> and \<open>wrap180\<close> of the converted
  numbers; every other argument, degree-minute-second text included, is a TypeError.
  The setters do parse such text: for an argument that \<open>isNaN\<close> rejects and \<open>Dms.parse\<close>
  converts, they store \<open>wrap90\<close> or \<open>wrap180\<close> of the parsed value unless that is NaN;
  setting \<open>lat\<close> to \<open>'3 30 00W'\<close> stores -3.5, and to \<open>'3 37 12W'\<close> a value between -3.63
  and -3.61.
\<close>

theorem constructor_numeric_setters_parse:
  "(new_LatLonSpherical la lo = Inl TypeError) = (ToNumber la = NaN \<or> ToNumber lo = NaN)
   \<and> (ToNumber la \<noteq> NaN \<and> ToNumber lo \<noteq> NaN \<longrightarrow>
         new_LatLonSpherical la lo = Inr \<lparr>lat = wrap90 (ToNumber la), lon = wrap180 (ToNumber lo)\<rparr>)
   \<and> (isNaN v \<and> Dms_parse repr v = Inr d \<and> wrap90 d \<noteq> NaN \<longrightarrow>
         set_lat repr v this = (Inr (), this\<lparr>lat := wrap90 d\<rparr>))
   \<and> (isNaN v \<and> Dms_parse repr v = Inr d \<and> wrap180 d \<noteq> NaN \<longrightarrow>
         set_lon repr v this = (Inr (), this\<lparr>lon := wrap180 d\<rparr>))
   \<and> set_lat repr (JStr (asc ''3 30 00W'')) this = (Inr (), this\<lparr>lat := Fin (- 3.5)\<rparr>)
   \<and> (\<exists>d. - 3.63 < d \<and> d < - 3.61
          \<and> set_lat repr (JStr (asc ''3 37 12W'')) this = (Inr (), this\<lparr>lat := Fin d\<rparr>))"
proof -
  have a: "(new_LatLonSpherical la lo = Inl TypeError) = (ToNumber la = NaN \<or> ToNumber lo = NaN)"
    by (auto simp: new_LatLonSpherical_def isNaN_def)
  have b: "new_LatLonSpherical la lo
             = Inr \<lparr>lat = wrap90 (ToNumber la), lon = wrap180 (ToNumber lo)\<rparr>"
    if "ToNumber la \<noteq> NaN \<and> ToNumber lo \<noteq> NaN"
    using that by (simp add: new_LatLonSpherical_def isNaN_def)
  have c: "set_lat repr v this = (Inr (), this\<lparr>lat := wrap90 d\<rparr>)"
    if "isNaN v \<and> Dms_parse repr v = Inr d \<and> wrap90 d \<noteq> NaN" for v d
    using that by (simp add: set_lat_def bind_err_def)
  have c': "set_lon repr v this = (Inr (), this\<lparr>lon := wrap180 d\<rparr>)"
    if "isNaN v \<and> Dms_parse repr v = Inr d \<and> wrap180 d \<noteq> NaN" for v d
    using that by (simp add: set_lon_def bind_err_def)
  have w: "wrap90 (Fin (- 3.5)) = Fin (- 3.5)" "wrap90 (Fin (- 3.62)) = Fin (- 3.62)"
    by (simp_all add: wrap90_def)
  have e: "set_lat repr (JStr (asc ''3 30 00W'')) this = (Inr (), this\<lparr>lat := Fin (- 3.5)\<rparr>)"
    using c [of "JStr (asc ''3 30 00W'')" "Fin (- 3.5)"] isNaN_dms_text(2) parse_dms_exact w
    by simp
  have "set_lat repr (JStr (asc ''3 37 12W'')) this = (Inr (), this\<lparr>lat := Fin (- 3.62)\<rparr>)"
    using c [of "JStr (asc ''3 37 12W'')" "Fin (- 3.62)"] isNaN_dms_text(1) parse_dms_text w
    by simp
  moreover have "- 3.63 < (- 3.62 :: real)" "(- 3.62 :: real) < - 3.61" by simp_all
  ultimately have f: "\<exists>d. - 3.63 < d \<and> d < - 3.61
          \<and> set_lat repr (JStr (asc ''3 37 12W'')) this = (Inr (), this\<lparr>lat := Fin d\<rparr>)"
    by blast
  show ?thesis
    apply (intro conjI impI)
    subgoal by (rule a)
    subgoal by (rule b)
    subgoal by (rule c)
    subgoal by (rule c')
    subgoal by (rule e)
    subgoal by (rule f)
    done
qed

theorem constructor_numeric_setters_parse_witness:
  "(ToNumber (JStr (asc ''52.25'')) \<noteq> NaN \<and> ToNumber (JNum (Fin 0.125)) \<noteq> NaN)
   \<and> new_LatLonSpherical (JStr (asc ''52.25'')) (JNum (Fin 0.125))
         = Inr \<lparr>lat = Fin 52.25, lon = Fin 0.125\<rparr>
   \<and> (isNaN (JStr (asc ''3 30 00W''))
        \<and> Dms_parse (\<lambda>x. []) (JStr (asc ''3 30 00W'')) = Inr (Fin (- 3.5))
        \<and> wrap90 (Fin (- 3.5)) \<noteq> NaN \<and> wrap180 (Fin (- 3.5)) \<noteq> NaN)
   \<and> set_lon (\<lambda>x. []) (JStr (asc ''3 30 00W'')) \<lparr>lat = Fin 0, lon = Fin 0\<rparr>
         = (Inr (), \<lparr>lat = Fin 0, lon = Fin (- 3.5)\<rparr>)"
proof -
  have h1: "ToNumber (JStr (asc ''52.25'')) = Fin 52.25" by (simp add: string_eval Let_def)
  have w1: "wrap90 (Fin 52.25) = Fin 52.25" "wrap180 (Fin 0.125) = Fin 0.125"
    "wrap180 (Fin (- 3.5)) = Fin (- 3.5)" "wrap90 (Fin (- 3.5)) = Fin (- 3.5)"
    by (simp_all add: wrap90_def wrap180_def)
  show ?thesis
    using h1 isNaN_dms_text(2) w1 parse_dms_exact [of "\<lambda>x. []"]
      constructor_numeric_setters_parse [where la = "JStr (asc ''52.25'')" and lo = "JNum (Fin 0.125)"
        and v = "JStr (asc ''3 30 00W'')" and repr = "\<lambda>x. []" and d = "Fin (- 3.5)"
        and this = "\<lparr>lat = Fin 0, lon = Fin 0\<rparr>"]
    by simp
qed

section \<open>The polygon array of areaOf\<close>

lemma equals_self: "equals p p"
proof -
  have "\<And>a::jsnum. \<not> Number_EPSILON < \<bar>a - a\<bar>"
  proof -
    fix a :: jsnum
    show "\<not> Number_EPSILON < \<bar>a - a\<bar>"
      by (cases a) (simp_all add: minus_jsnum_def Number_EPSILON_def)
  qed
  then show ?thesis by (simp add: equals_def)
qed

lemma isPoleEnclosedBy_two:
  "\<exists>e. isPoleEnclosedBy M (a # b # ps) = Inr e"
  by (simp add: isPoleEnclosedBy_def Let_def split: prod.splits)

lemma areaOf_single: "areaOf M [p] R = (Inl TypeError, [p])"
  by (simp add: areaOf_def equals_self isPoleEnclosedBy_def Let_def)

text \<open>
  C9.  For every non-empty polygon, closed or not, and every implementation of \<open>Math\<close>,
  \<open>areaOf\<close> leaves the caller's array as it found it: the vertex pushed onto an unclosed
  polygon is popped again and nothing is pushed onto a closed one.  With two vertices or
  more the call returns an area; with a single vertex \<open>isPoleEnclosedBy\<close> throws, the array
  untouched.
\<close>

theorem areaOf_restores_polygon:
  assumes "polygon \<noteq> []"
  shows "snd (areaOf M polygon R) = polygon
         \<and> (length polygon = 1 \<or> (\<exists>A. fst (areaOf M polygon R) = Inr A))"
proof -
  from assms obtain p0 rest where pr: "polygon = p0 # rest" by (cases polygon) auto
  show ?thesis
  proof (cases rest)
    case Nil
    with pr show ?thesis by (simp add: areaOf_single)
  next
    case (Cons p1 rest')
    show ?thesis
    proof (cases "equals p0 (last polygon)")
      case True
      obtain e where "isPoleEnclosedBy M polygon = Inr e"
        using isPoleEnclosedBy_two [of M p0 p1 rest'] pr Cons by auto
      with True pr Cons show ?thesis by (simp add: areaOf_def Let_def)
    next
      case False
      obtain e where "isPoleEnclosedBy M (polygon @ [p0]) = Inr e"
        using isPoleEnclosedBy_two [of M p0 p1 "rest' @ [p0]"] pr Cons by auto
      with False pr Cons show ?thesis by (simp add: areaOf_def Let_def)
    qed
  qed
qed

theorem areaOf_restores_polygon_witness:
  "[\<lparr>lat = Fin 0, lon = Fin 0\<rparr>, \<lparr>lat = Fin 1, lon = Fin 0\<rparr>, \<lparr>lat = Fin 0, lon = Fin 1\<rparr>] \<noteq> []
   \<and> snd (areaOf exact_math
         [\<lparr>lat = Fin 0, lon = Fin 0\<rparr>, \<lparr>lat = Fin 1, lon = Fin 0\<rparr>, \<lparr>lat = Fin 0, lon = Fin 1\<rparr>]
         (Fin 6371000))
       = [\<lparr>lat = Fin 0, lon = Fin 0\<rparr>, \<lparr>lat = Fin 1, lon = Fin 0\<rparr>, \<lparr>lat = Fin 0, lon = Fin 1\<rparr>]
   \<and> (\<exists>A. fst (areaOf exact_math
         [\<lparr>lat = Fin 0, lon = Fin 0\<rparr>, \<lparr>lat = Fin 1, lon = Fin 0\<rparr>, \<lparr>lat = Fin 0, lon = Fin 1\<rparr>]
         (Fin 6371000)) = Inr A)"
  using areaOf_restores_polygon [of
    "[\<lparr>lat = Fin 0, lon = Fin 0\<rparr>, \<lparr>lat = Fin 1, lon = Fin 0\<rparr>, \<lparr>lat = Fin 0, lon = Fin 1\<rparr>]"
    exact_math "Fin 6371000"]
  by simp

section \<open>intersection\<close>











lemma times_NaN_right [simp]: "x * NaN = NaN" for x :: jsnum
  by (cases x) simp_all

lemma plus_NaN_right [simp]: "x + NaN = NaN" for x :: jsnum
  by (cases x) simp_all













end
